theory Spec2Isabelle
  imports Complex_Main
begin

section \<open>Errors and results\<close>

text \<open>
  The Python exceptions that the modelled code can raise. A function that may raise returns
  \<open>error + 'a\<close>, with \<open>Inl\<close> carrying the exception.
\<close>

datatype error =
    ValueError
  | AssertionError
  | RuntimeError
  | IndexError
  | TypeError
  | ZeroDivisionError

definition bnd :: "error + 'a \<Rightarrow> ('a \<Rightarrow> error + 'b) \<Rightarrow> error + 'b" where
  "bnd r f = (case r of Inl e \<Rightarrow> Inl e | Inr x \<Rightarrow> f x)"

definition py_assert :: "bool \<Rightarrow> error + unit" where
  "py_assert b = (if b then Inr () else Inl AssertionError)"

section \<open>Tensors\<close>

text \<open>
  A tensor is its shape and its elements in row-major order, as a contiguous torch tensor
  stores them. Elements are real numbers: the rounding, infinities and NaN of floating
  point are not modelled. Every tensor the modelled code passes to \<open>view\<close> is contiguous
  there, so strides are not modelled either.
\<close>

datatype tensor = Tensor (shape: "nat list") (data: "real list")

definition numel :: "nat list \<Rightarrow> nat" where
  "numel s = prod_list s"

definition wf_tensor :: "tensor \<Rightarrow> bool" where
  "wf_tensor t \<longleftrightarrow> length (data t) = numel (shape t)"

definition dim :: "tensor \<Rightarrow> nat" where
  "dim t = length (shape t)"

definition map_tensor :: "(real \<Rightarrow> real) \<Rightarrow> tensor \<Rightarrow> tensor" where
  "map_tensor f t = Tensor (shape t) (map f (data t))"

text \<open>\<open>t.to(dtype=torch.long)\<close>: every element is truncated towards zero.\<close>

definition trunc :: "real \<Rightarrow> real" where
  "trunc x = (if 0 \<le> x then of_int \<lfloor>x\<rfloor> else of_int \<lceil>x\<rceil>)"

definition to_long :: "tensor \<Rightarrow> tensor" where
  "to_long t = map_tensor trunc t"

text \<open>\<open>t.unsqueeze(d)\<close> for \<open>0 \<le> d \<le> t.dim()\<close>; indexing with \<open>None\<close> is the same operation.\<close>

definition unsqueeze :: "nat \<Rightarrow> tensor \<Rightarrow> tensor" where
  "unsqueeze d t = Tensor (take d (shape t) @ [1] @ drop d (shape t)) (data t)"

text \<open>
  The row-major offset of a multi-index, and the multi-index of an offset.
\<close>

fun ravel :: "nat list \<Rightarrow> nat list \<Rightarrow> nat" where
  "ravel (n # ns) (i # js) = i * numel ns + ravel ns js"
| "ravel _ _ = 0"

fun unravel :: "nat list \<Rightarrow> nat \<Rightarrow> nat list" where
  "unravel [] k = []"
| "unravel (n # ns) k = (k div numel ns) # unravel ns (k mod numel ns)"

text \<open>\<open>el t idx\<close> is the element \<open>t[idx]\<close>; \<open>tabulate s f\<close> is the tensor of shape \<open>s\<close> with
  \<open>f idx\<close> at every index.\<close>

definition el :: "tensor \<Rightarrow> nat list \<Rightarrow> real" where
  "el t idx = data t ! ravel (shape t) idx"

definition tabulate :: "nat list \<Rightarrow> (nat list \<Rightarrow> real) \<Rightarrow> tensor" where
  "tabulate s f = Tensor s (map (\<lambda>k. f (unravel s k)) [0..<numel s])"

definition valid_index :: "nat list \<Rightarrow> nat list \<Rightarrow> bool" where
  "valid_index s idx = list_all2 (<) idx s"

text \<open>
  Python subscription \<open>xs[i]\<close> for \<open>i \<ge> 0\<close>: \<open>IndexError\<close> out of range, \<open>TypeError\<close> when
  \<open>xs\<close> is \<open>None\<close>; \<open>a % b\<close> raises \<open>ZeroDivisionError\<close> for \<open>b = 0\<close>.
\<close>

definition py_getitem :: "'a list \<Rightarrow> nat \<Rightarrow> error + 'a" where
  "py_getitem xs i = (if i < length xs then Inr (xs ! i) else Inl IndexError)"

definition py_getitem_opt :: "'a list option \<Rightarrow> nat \<Rightarrow> error + 'a" where
  "py_getitem_opt xs i = (case xs of None \<Rightarrow> Inl TypeError | Some ys \<Rightarrow> py_getitem ys i)"

definition py_mod :: "nat \<Rightarrow> nat \<Rightarrow> error + nat" where
  "py_mod a b = (if b = 0 then Inl ZeroDivisionError else Inr (a mod b))"

definition shape_at :: "tensor \<Rightarrow> nat \<Rightarrow> error + nat" where
  "shape_at t i = py_getitem (shape t) i"

text \<open>
  \<open>t.view(*req)\<close> and \<open>t.reshape(*req)\<close>: at most one requested size is \<open>-1\<close> and is
  inferred from the number of elements; torch raises \<open>RuntimeError\<close> when the sizes do not
  fit, and also when the inferred size is ambiguous (the other sizes multiply to 0).
\<close>

definition infer_size :: "int list \<Rightarrow> nat \<Rightarrow> error + nat list" where
  "infer_size req n =
     (if list_ex (\<lambda>d. d < - 1) req \<or> 1 < length (filter (\<lambda>d. d = - 1) req)
      then Inl RuntimeError
      else
        let known = prod_list (map nat (filter (\<lambda>d. d \<noteq> - 1) req))
        in if list_ex (\<lambda>d. d = - 1) req
           then (if known = 0 \<or> n mod known \<noteq> 0 then Inl RuntimeError
                 else Inr (map (\<lambda>d. if d = - 1 then n div known else nat d) req))
           else (if known = n then Inr (map nat req) else Inl RuntimeError))"

definition view :: "tensor \<Rightarrow> int list \<Rightarrow> error + tensor" where
  "view t req = bnd (infer_size req (numel (shape t))) (\<lambda>s. Inr (Tensor s (data t)))"

definition reshape :: "tensor \<Rightarrow> int list \<Rightarrow> error + tensor" where
  "reshape t req = view t req"

text \<open>
  Broadcasting. Shapes are aligned at the last dimension; a dimension of size 1 is
  repeated. \<open>bidx s idx\<close> is the index into a tensor of shape \<open>s\<close> that an index \<open>idx\<close> of
  the broadcast shape reads.
\<close>

definition bidx :: "nat list \<Rightarrow> nat list \<Rightarrow> nat list" where
  "bidx s idx = map2 (\<lambda>n i. if n = 1 then 0 else i) s (drop (length idx - length s) idx)"

definition expandable :: "nat list \<Rightarrow> nat list \<Rightarrow> bool" where
  "expandable s target \<longleftrightarrow>
     length s \<le> length target \<and>
     list_all2 (\<lambda>n m. n = m \<or> n = 1) s (drop (length target - length s) target)"

definition expand :: "tensor \<Rightarrow> nat list \<Rightarrow> error + tensor" where
  "expand t sizes =
     (if expandable (shape t) sizes
      then Inr (tabulate sizes (\<lambda>idx. el t (bidx (shape t) idx)))
      else Inl RuntimeError)"

definition broadcast_shapes :: "nat list \<Rightarrow> nat list \<Rightarrow> error + nat list" where
  "broadcast_shapes a b =
     (let n = max (length a) (length b);
          a' = replicate (n - length a) 1 @ a;
          b' = replicate (n - length b) 1 @ b
      in if list_all2 (\<lambda>x y. x = y \<or> x = 1 \<or> y = 1) a' b'
         then Inr (map2 (\<lambda>x y. if x = 1 then y else x) a' b')
         else Inl RuntimeError)"

definition binop :: "(real \<Rightarrow> real \<Rightarrow> real) \<Rightarrow> tensor \<Rightarrow> tensor \<Rightarrow> error + tensor" where
  "binop f a b =
     bnd (broadcast_shapes (shape a) (shape b))
       (\<lambda>s. Inr (tabulate s (\<lambda>idx. f (el a (bidx (shape a) idx)) (el b (bidx (shape b) idx)))))"

definition add_tensor :: "tensor \<Rightarrow> tensor \<Rightarrow> error + tensor" where
  "add_tensor a b = binop (+) a b"

text \<open>
  \<open>torch.matmul\<close>: the last two dimensions are multiplied as matrices, the leading ones
  are broadcast. A 1-dimensional argument is given a dimension of size 1, which is removed
  from the result.
\<close>

definition matmul_nd :: "tensor \<Rightarrow> tensor \<Rightarrow> error + tensor" where
  "matmul_nd a b =
     (let sa = shape a; sb = shape b;
          ba = butlast (butlast sa); bb = butlast (butlast sb);
          n = last (butlast sa); m = last sa;
          m' = last (butlast sb); p = last sb
      in if m \<noteq> m' then Inl RuntimeError
         else bnd (broadcast_shapes ba bb)
           (\<lambda>bs. Inr (tabulate (bs @ [n, p])
              (\<lambda>idx. let bi = take (length bs) idx;
                         i = idx ! length bs;
                         j = idx ! Suc (length bs)
                     in sum_list (map (\<lambda>d. el a (bidx ba bi @ [i, d]) * el b (bidx bb bi @ [d, j]))
                          [0..<m])))))"

definition matmul :: "tensor \<Rightarrow> tensor \<Rightarrow> error + tensor" where
  "matmul a b =
     (if dim a = 0 \<or> dim b = 0 then Inl RuntimeError
      else
        let a' = (if dim a = 1 then unsqueeze 0 a else a);
            b' = (if dim b = 1 then unsqueeze 1 b else b)
        in bnd (matmul_nd a' b')
             (\<lambda>r. let s = shape r;
                      bs = butlast (butlast s)
                  in Inr (Tensor (bs @ (if dim a = 1 then [] else [last (butlast s)])
                                     @ (if dim b = 1 then [] else [last s]))
                                 (data r))))"

section \<open>Module-level helpers\<close>

text \<open>
  \<open>get_extended_attention_mask(attention_mask, input_shape, device)\<close>. The last two
  arguments only appear in the message of the exception.
\<close>

definition get_extended_attention_mask ::
  "tensor \<Rightarrow> nat list \<Rightarrow> string \<Rightarrow> error + tensor" where
  "get_extended_attention_mask attention_mask input_shape device =
     bnd (if dim attention_mask = 3 then Inr (unsqueeze 1 attention_mask)
          else if dim attention_mask = 2 then Inr (unsqueeze 1 (unsqueeze 1 attention_mask))
          else Inl ValueError)
       (\<lambda>extended_attention_mask.
          Inr (map_tensor (\<lambda>x. (1 - x) * (- 10000)) (to_long extended_attention_mask)))"

text \<open>
  \<open>get_head_mask(head_mask, num_hidden_layers, is_attention_chunked)\<close>. The result is a
  Python list whose entries are \<open>None\<close> or tensors; \<open>[None] * n\<close> is empty for \<open>n \<le> 0\<close>.
\<close>

definition get_head_mask :: "tensor option \<Rightarrow> int \<Rightarrow> bool \<Rightarrow> tensor option list" where
  "get_head_mask head_mask num_hidden_layers is_attention_chunked =
     replicate (nat num_hidden_layers) None"

section \<open>Class-level state: ShareKey and AttentionReg\<close>

text \<open>
  \<open>ShareKey\<close> and \<open>AttentionReg\<close> are classes used as global objects: every attribute is a
  class attribute. \<open>key\<close>, \<open>vision_bias\<close>, \<open>text_bias\<close> and the three \<open>old_\<close> attributes
  start as \<open>None\<close> and later hold lists with one tensor per layer.
\<close>

datatype batchnorm = BatchNorm2d nat

record ShareKey_state =
  v_max_l :: nat
  t_max_l :: nat
  num_heads :: nat
  head_dim :: nat
  key :: "tensor list option"
  vision_bias :: "tensor list option"
  text_bias :: "tensor list option"
  text_bn :: "batchnorm list"
  vision_bn :: "batchnorm list"
  layer :: nat

record 'm AttentionReg_state =
  old_model :: "'m option"
  old_key :: "tensor list option"
  old_text_bias :: "tensor list option"
  old_vision_bias :: "tensor list option"
  attention_text_list :: "tensor list"
  attention_vision_list :: "tensor list"
  zero :: tensor

record 'm world =
  ShareKey :: ShareKey_state
  AttentionReg :: "'m AttentionReg_state"
  BertEmbeddings_embedding :: "tensor option"
  BertSelfAttention_MODIFY :: bool

definition START_SHARE_LAYER :: nat where
  "START_SHARE_LAYER = 9"


definition change_ShareKey :: "'m world \<Rightarrow> 'm world" where
  "change_ShareKey w =
     (let k = key (ShareKey w);
          tb = text_bias (ShareKey w);
          vb = vision_bias (ShareKey w)
      in w\<lparr>ShareKey := (ShareKey w)\<lparr>key := old_key (AttentionReg w),
                                        text_bias := old_text_bias (AttentionReg w),
                                        vision_bias := old_vision_bias (AttentionReg w)\<rparr>,
            AttentionReg := (AttentionReg w)\<lparr>old_key := k,
                                                old_text_bias := tb,
                                                old_vision_bias := vb\<rparr>\<rparr>)"

section \<open>ShareKey.cal_attention\<close>

text \<open>
  \<open>cal_attention(query_states, layer, modality, shape)\<close> reads the class attributes and
  changes none. The batch-norm module \<open>bn\<close> is looked up and not used. The function ends
  with \<open>if shape == 3 ... elif shape == 4\<close>; the assertion at its start leaves no other
  value of \<open>shape\<close>.
\<close>

definition cal_attention ::
  "ShareKey_state \<Rightarrow> tensor \<Rightarrow> nat \<Rightarrow> string \<Rightarrow> int \<Rightarrow> error + tensor" where
  "cal_attention cls query_states0 lyr modality shp =
     bnd (py_assert (modality \<in> set [''text'', ''vision''])) (\<lambda>_.
     bnd (py_assert (shp \<in> set [3, 4])) (\<lambda>_.
     bnd (if shp = 4
          then bnd (shape_at query_states0 0) (\<lambda>s0.
               bnd (shape_at query_states0 1) (\<lambda>s1.
               bnd (shape_at query_states0 2) (\<lambda>s2.
               bnd (shape_at query_states0 3) (\<lambda>s3.
                 reshape query_states0 [int (s0 * s1), int s2, int s3]))))
          else Inr query_states0) (\<lambda>query_states1.
     bnd (shape_at query_states1 0) (\<lambda>s0.
     bnd (py_mod s0 (num_heads cls)) (\<lambda>r.
     bnd (py_assert (r = 0)) (\<lambda>_.
     let bsz = s0 div num_heads cls in
     bnd (view query_states1 [int bsz, int (num_heads cls), - 1, int (head_dim cls)])
       (\<lambda>query_states.
     bnd (if modality = ''vision'' then py_getitem_opt (vision_bias cls) lyr
          else py_getitem_opt (text_bias cls) lyr) (\<lambda>bias.
     bnd (if modality = ''vision'' then py_getitem (vision_bn cls) lyr
          else py_getitem (text_bn cls) lyr) (\<lambda>bn.
     bnd (py_getitem_opt (key cls) lyr) (\<lambda>k.
     bnd (matmul query_states k) (\<lambda>attn_weights1.
     bnd (shape_at attn_weights1 2) (\<lambda>l1.
     bnd (expand attn_weights1 [bsz, num_heads cls, l1, l1]) (\<lambda>attn_weights2.
     bnd (add_tensor attn_weights2 (unsqueeze 0 bias)) (\<lambda>attn_weights.
     if shp = 3
     then bnd (shape_at attn_weights 2) (\<lambda>l2.
            reshape attn_weights [int (bsz * num_heads cls), int l2, int l2])
     else Inr attn_weights))))))))))))))"

text \<open>The bias list and the batch-norm list that \<open>cal_attention\<close> selects for a modality.\<close>

definition bias_of :: "ShareKey_state \<Rightarrow> string \<Rightarrow> tensor list option" where
  "bias_of cls modality = (if modality = ''vision'' then vision_bias cls else text_bias cls)"

definition bn_of :: "ShareKey_state \<Rightarrow> string \<Rightarrow> batchnorm list" where
  "bn_of cls modality = (if modality = ''vision'' then vision_bn cls else text_bn cls)"

text \<open>A small state for concrete runs: one layer, two heads of dimension 2, maximal length 2.\<close>

definition sk_example :: ShareKey_state where
  "sk_example = \<lparr>v_max_l = 2, t_max_l = 2, num_heads = 2, head_dim = 2,
     key = Some [Tensor [1, 2, 2, 1] [1, 2, 3, 4]],
     vision_bias = Some [Tensor [2, 2, 2] [10, 20, 30, 40, 50, 60, 70, 80]],
     text_bias = Some [Tensor [2, 2, 2] [1, 2, 3, 4, 5, 6, 7, 8]],
     text_bn = [BatchNorm2d 2], vision_bn = [BatchNorm2d 2], layer = 1\<rparr>"

section \<open>AttentionReg.cal_loss\<close>













section \<open>The attention modules, the encoder and the model\<close>

text \<open>
  \<open>t.transpose(i, j)\<close> followed by \<open>contiguous()\<close> or by a copying operation, for
  \<open>0 \<le> i, j\<close>; \<open>t.permute(0, 2, 1, 3)\<close>; \<open>torch.bmm\<close>, which does not broadcast; and the
  multiplication and division of a tensor by a Python number.
\<close>

definition swap :: "nat \<Rightarrow> nat \<Rightarrow> 'a list \<Rightarrow> 'a list" where
  "swap i j xs = xs[i := xs ! j, j := xs ! i]"

definition transpose_dims :: "nat \<Rightarrow> nat \<Rightarrow> tensor \<Rightarrow> error + tensor" where
  "transpose_dims i j t =
     (if i < dim t \<and> j < dim t
      then Inr (tabulate (swap i j (shape t)) (\<lambda>idx. el t (swap i j idx)))
      else Inl IndexError)"

definition permute_0213 :: "tensor \<Rightarrow> error + tensor" where
  "permute_0213 t = (if dim t = 4 then transpose_dims 1 2 t else Inl RuntimeError)"

definition bmm :: "tensor \<Rightarrow> tensor \<Rightarrow> error + tensor" where
  "bmm a b =
     (if dim a = 3 \<and> dim b = 3 \<and> shape a ! 0 = shape b ! 0 \<and> shape a ! 2 = shape b ! 1
      then Inr (tabulate [shape a ! 0, shape a ! 1, shape b ! 2]
             (\<lambda>idx. sum_list (map (\<lambda>d. el a [idx ! 0, idx ! 1, d] * el b [idx ! 0, d, idx ! 2])
                       [0..<shape a ! 2])))
      else Inl RuntimeError)"

definition mul_scalar :: "tensor \<Rightarrow> real \<Rightarrow> tensor" where
  "mul_scalar t c = map_tensor (\<lambda>x. x * c) t"

definition div_scalar :: "tensor \<Rightarrow> real \<Rightarrow> tensor" where
  "div_scalar t c = map_tensor (\<lambda>x. x / c) t"

definition mul_tensor :: "tensor \<Rightarrow> tensor \<Rightarrow> error + tensor" where
  "mul_tensor a b = binop (*) a b"

text \<open>The in-place addition \<open>a += b\<close>: the broadcast shape has to be the shape of \<open>a\<close>.\<close>

definition iadd_tensor :: "tensor \<Rightarrow> tensor \<Rightarrow> error + tensor" where
  "iadd_tensor a b =
     bnd (add_tensor a b) (\<lambda>r. if shape r = shape a then Inr r else Inl RuntimeError)"

text \<open>
  The learned modules (\<open>nn.Linear\<close>, \<open>nn.LayerNorm\<close>, \<open>nn.Embedding\<close>), the activation
  functions, softmax and dropout are parameters of the model: functions from a tensor to a
  tensor that may raise. No property below depends on what they compute.
\<close>

type_synonym nn_fn = "tensor \<Rightarrow> error + tensor"

record CLIPAttention =
  clip_num_heads :: nat
  clip_head_dim :: nat
  scale :: real
  clip_dropout :: nn_fn
  clip_softmax :: nn_fn
  k_proj :: nn_fn
  v_proj :: nn_fn
  q_proj :: nn_fn
  out_proj :: nn_fn

text \<open>\<open>bsz, tgt_len, embed_dim = hidden_states.size()\<close> raises \<open>ValueError\<close> unless there are three sizes.\<close>

definition size3 :: "tensor \<Rightarrow> error + nat \<times> nat \<times> nat" where
  "size3 t = (if dim t = 3 then Inr (shape t ! 0, shape t ! 1, shape t ! 2) else Inl ValueError)"

definition CLIPAttention_shape :: "CLIPAttention \<Rightarrow> tensor \<Rightarrow> int \<Rightarrow> nat \<Rightarrow> error + tensor" where
  "CLIPAttention_shape self t seq_len bsz =
     bnd (view t [int bsz, seq_len, int (clip_num_heads self), int (clip_head_dim self)])
       (transpose_dims 1 2)"

text \<open>
  The block of \<open>CLIPAttention.forward\<close> that computes the raw scores \<open>attn_weights\<close>, from the
  layer index, the input \<open>hidden_states\<close>, the projected query \<open>query_states\<close> and \<open>bsz\<close>.
\<close>

definition CLIPAttention_attn_weights ::
  "CLIPAttention \<Rightarrow> nat \<Rightarrow> tensor \<Rightarrow> tensor \<Rightarrow> nat \<Rightarrow> 'm world \<Rightarrow> error + tensor \<times> 'm world" where
  "CLIPAttention_attn_weights self lyr hidden_states query_states bsz w =
     (if lyr < START_SHARE_LAYER
      then
        bnd (k_proj self hidden_states) (\<lambda>k.
        bnd (CLIPAttention_shape self k (- 1) bsz) (\<lambda>key_states0.
        bnd (view key_states0 [int (bsz * clip_num_heads self), - 1, int (clip_head_dim self)])
          (\<lambda>key_states.
        bnd (transpose_dims 1 2 key_states) (\<lambda>kt.
        bnd (bmm query_states kt) (\<lambda>attn_weights. Inr (attn_weights, w))))))
      else
        bnd (cal_attention (ShareKey w) query_states lyr ''vision'' 3) (\<lambda>attn_weights.
        Inr (attn_weights,
             w\<lparr>AttentionReg := (AttentionReg w)
                  \<lparr>attention_vision_list :=
                     attention_vision_list (AttentionReg w) @ [attn_weights]\<rparr>\<rparr>)))"

text \<open>
  \<open>CLIPAttention.forward\<close> in three parts: the statements before the scores (the sizes, the
  query and value states and \<open>src_len\<close>), the scores, and the statements after them.
\<close>

definition CLIPAttention_states ::
  "CLIPAttention \<Rightarrow> tensor \<Rightarrow> error + (nat \<times> nat \<times> nat) \<times> tensor \<times> tensor \<times> nat" where
  "CLIPAttention_states self hidden_states =
     bnd (size3 hidden_states) (\<lambda>(bsz, tgt_len, embed_dim).
     bnd (q_proj self hidden_states) (\<lambda>q.
     let query_states0 = mul_scalar q (scale self) in
     bnd (v_proj self hidden_states) (\<lambda>v.
     bnd (CLIPAttention_shape self v (- 1) bsz) (\<lambda>value_states0.
     bnd (CLIPAttention_shape self query_states0 (int tgt_len) bsz) (\<lambda>query_states1.
     bnd (view query_states1 [int (bsz * clip_num_heads self), - 1, int (clip_head_dim self)])
       (\<lambda>query_states.
     bnd (view value_states0 [int (bsz * clip_num_heads self), - 1, int (clip_head_dim self)])
       (\<lambda>value_states.
     bnd (shape_at value_states 1) (\<lambda>src_len.
     Inr ((bsz, tgt_len, embed_dim), query_states, value_states, src_len)))))))))"

definition CLIPAttention_output ::
  "CLIPAttention \<Rightarrow> nat \<times> nat \<times> nat \<Rightarrow> tensor \<Rightarrow> nat \<Rightarrow> bool \<Rightarrow> tensor \<Rightarrow>
     error + tensor \<times> tensor option" where
  "CLIPAttention_output self sizes value_states src_len output_attentions attn_weights0 =
     (case sizes of (bsz, tgt_len, embed_dim) \<Rightarrow>
     bnd (if shape attn_weights0 \<noteq> [bsz * clip_num_heads self, tgt_len, src_len]
          then Inl ValueError else Inr ()) (\<lambda>_.
     bnd (clip_softmax self attn_weights0) (\<lambda>attn_weights1.
     bnd (if output_attentions
          then bnd (view attn_weights1
                      [int bsz, int (clip_num_heads self), int tgt_len, int src_len])
                 (\<lambda>attn_weights_reshaped.
               bnd (view attn_weights_reshaped
                      [int (bsz * clip_num_heads self), int tgt_len, int src_len])
                 (\<lambda>attn_weights. Inr (attn_weights, Some attn_weights_reshaped)))
          else Inr (attn_weights1, None)) (\<lambda>(attn_weights, attn_weights_reshaped).
     bnd (clip_dropout self attn_weights) (\<lambda>attn_probs.
     bnd (bmm attn_probs value_states) (\<lambda>attn_output0.
     bnd (if shape attn_output0 \<noteq> [bsz * clip_num_heads self, tgt_len, clip_head_dim self]
          then Inl ValueError else Inr ()) (\<lambda>_.
     bnd (view attn_output0
            [int bsz, int (clip_num_heads self), int tgt_len, int (clip_head_dim self)])
       (\<lambda>attn_output1.
     bnd (transpose_dims 1 2 attn_output1) (\<lambda>attn_output2.
     bnd (reshape attn_output2 [int bsz, int tgt_len, int embed_dim]) (\<lambda>attn_output3.
     bnd (out_proj self attn_output3) (\<lambda>attn_output.
     Inr (attn_output, attn_weights_reshaped))))))))))))"

definition CLIPAttention_forward ::
  "CLIPAttention \<Rightarrow> nat \<Rightarrow> tensor \<Rightarrow> bool \<Rightarrow> 'm world \<Rightarrow>
     error + (tensor \<times> tensor option) \<times> 'm world" where
  "CLIPAttention_forward self lyr hidden_states output_attentions w =
     bnd (CLIPAttention_states self hidden_states)
       (\<lambda>(sizes, query_states, value_states, src_len).
     bnd (CLIPAttention_attn_weights self lyr hidden_states query_states (fst sizes) w)
       (\<lambda>(attn_weights, w').
     bnd (CLIPAttention_output self sizes value_states src_len output_attentions attn_weights)
       (\<lambda>r. Inr (r, w'))))"

record BertSelfAttention =
  num_attention_heads :: nat
  attention_head_size :: nat
  all_head_size :: nat
  bert_query :: nn_fn
  bert_key :: nn_fn
  bert_value :: nn_fn
  bert_softmax :: nn_fn
  bert_dropout :: nn_fn

definition transpose_for_scores :: "BertSelfAttention \<Rightarrow> tensor \<Rightarrow> error + tensor" where
  "transpose_for_scores self x =
     bnd (view x (map int (butlast (shape x)) @
                  [int (num_attention_heads self), int (attention_head_size self)]))
       permute_0213"

text \<open>\<open>t.transpose(-1, -2)\<close>.\<close>

definition transpose_last :: "tensor \<Rightarrow> error + tensor" where
  "transpose_last t =
     (if dim t < 2 then Inl IndexError else transpose_dims (dim t - 1) (dim t - 2) t)"

text \<open>\<open>torch.where(t < c, z, t)\<close>, with \<open>z\<close> broadcast.\<close>

definition where_less :: "tensor \<Rightarrow> real \<Rightarrow> tensor \<Rightarrow> error + tensor" where
  "where_less t c z = binop (\<lambda>x y. if x < c then y else x) t z"

text \<open>
  The block of \<open>BertSelfAttention.forward\<close> that computes the raw scores, before they are
  divided by \<open>sqrt(attention_head_size)\<close> and the mask is added.
\<close>

definition BertSelfAttention_raw_scores ::
  "BertSelfAttention \<Rightarrow> nat \<Rightarrow> tensor \<Rightarrow> tensor \<Rightarrow> 'm world \<Rightarrow> error + tensor" where
  "BertSelfAttention_raw_scores self lyr hidden_states query_layer w =
     (if lyr < START_SHARE_LAYER
      then
        bnd (bert_key self hidden_states) (\<lambda>k.
        bnd (transpose_for_scores self k) (\<lambda>key_layer.
        bnd (transpose_last key_layer) (\<lambda>kt.
        matmul query_layer kt)))
      else cal_attention (ShareKey w) query_layer lyr ''text'' 4)"

text \<open>The block that records the scores of a shared layer in \<open>AttentionReg.attention_text_list\<close>.\<close>

definition BertSelfAttention_record ::
  "nat \<Rightarrow> tensor \<Rightarrow> 'm world \<Rightarrow> error + 'm world" where
  "BertSelfAttention_record lyr attention_scores w =
     (if START_SHARE_LAYER \<le> lyr
      then
        bnd (if BertSelfAttention_MODIFY w
             then where_less attention_scores (- 9000) (zero (AttentionReg w))
             else Inr attention_scores) (\<lambda>entry.
        Inr (w\<lparr>AttentionReg := (AttentionReg w)
                  \<lparr>attention_text_list :=
                     attention_text_list (AttentionReg w) @ [entry]\<rparr>\<rparr>))
      else Inr w)"

text \<open>
  \<open>BertSelfAttention.forward\<close> returns \<open>(outputs, fusion_output, qks)\<close>; the last two are always
  \<open>None\<close>, and \<open>outputs\<close> is \<open>(context_layer, attention_probs)\<close> or \<open>(context_layer,)\<close>. The
  function in its parts: the value and query layers, the raw scores, the scaled and masked
  scores, the recording of the scores, and the statements after it.
\<close>

definition BertSelfAttention_layers ::
  "BertSelfAttention \<Rightarrow> tensor \<Rightarrow> error + tensor \<times> tensor" where
  "BertSelfAttention_layers self hidden_states =
     bnd (bert_query self hidden_states) (\<lambda>mixed_query_layer.
     bnd (bert_value self hidden_states) (\<lambda>v.
     bnd (transpose_for_scores self v) (\<lambda>value_layer.
     bnd (transpose_for_scores self mixed_query_layer) (\<lambda>query_layer.
     Inr (value_layer, query_layer)))))"

text \<open>\<open>math.sqrt\<close> of a Python \<open>int\<close> that is not negative.\<close>

definition math_sqrt :: "nat \<Rightarrow> real" where
  "math_sqrt n = sqrt (real n)"

lemma math_sqrt_code [code]:
  "math_sqrt n = (if n = 0 then 0 else if n = 1 then 1 else math_sqrt n)"
  by (simp add: math_sqrt_def)

definition BertSelfAttention_scores ::
  "BertSelfAttention \<Rightarrow> tensor option \<Rightarrow> tensor \<Rightarrow> error + tensor" where
  "BertSelfAttention_scores self attention_mask attention_scores0 =
     (let attention_scores1 =
            div_scalar attention_scores0 (math_sqrt (attention_head_size self))
      in case attention_mask of
           None \<Rightarrow> Inr attention_scores1
         | Some am \<Rightarrow> add_tensor attention_scores1 am)"

definition BertSelfAttention_context ::
  "BertSelfAttention \<Rightarrow> tensor option \<Rightarrow> bool \<Rightarrow> tensor \<Rightarrow> tensor \<Rightarrow>
     error + tensor \<times> tensor option" where
  "BertSelfAttention_context self head_mask output_attentions value_layer attention_scores =
     bnd (bert_softmax self attention_scores) (\<lambda>attention_probs0.
     bnd (bert_dropout self attention_probs0) (\<lambda>attention_probs1.
     bnd (case head_mask of
            None \<Rightarrow> Inr attention_probs1
          | Some hm \<Rightarrow> mul_tensor attention_probs1 hm) (\<lambda>attention_probs.
     bnd (matmul attention_probs value_layer) (\<lambda>context_layer0.
     bnd (permute_0213 context_layer0) (\<lambda>context_layer1.
     bnd (view context_layer1
            (map int (butlast (butlast (shape context_layer1))) @ [int (all_head_size self)]))
       (\<lambda>context_layer.
     Inr (context_layer, if output_attentions then Some attention_probs else None)))))))"

definition BertSelfAttention_forward ::
  "BertSelfAttention \<Rightarrow> nat \<Rightarrow> tensor \<Rightarrow> tensor option \<Rightarrow> tensor option \<Rightarrow> bool \<Rightarrow>
     'm world \<Rightarrow> error + (tensor \<times> tensor option) \<times> 'm world" where
  "BertSelfAttention_forward self lyr hidden_states attention_mask head_mask output_attentions w =
     bnd (BertSelfAttention_layers self hidden_states) (\<lambda>(value_layer, query_layer).
     bnd (BertSelfAttention_raw_scores self lyr hidden_states query_layer w)
       (\<lambda>attention_scores0.
     bnd (BertSelfAttention_scores self attention_mask attention_scores0) (\<lambda>attention_scores.
     bnd (BertSelfAttention_record lyr attention_scores w) (\<lambda>w'.
     bnd (BertSelfAttention_context self head_mask output_attentions value_layer
            attention_scores) (\<lambda>r. Inr (r, w'))))))"

record CLIPMLP =
  fc1 :: nn_fn
  activation_fn :: nn_fn
  fc2 :: nn_fn

definition CLIPMLP_forward :: "CLIPMLP \<Rightarrow> tensor \<Rightarrow> error + tensor" where
  "CLIPMLP_forward self hidden_states =
     bnd (fc1 self hidden_states) (\<lambda>h1.
     bnd (activation_fn self h1) (\<lambda>h2.
     fc2 self h2))"

record BertSelfOutput =
  self_output_dense :: nn_fn
  self_output_dropout :: nn_fn
  self_output_LayerNorm :: nn_fn

definition BertSelfOutput_forward :: "BertSelfOutput \<Rightarrow> tensor \<Rightarrow> tensor \<Rightarrow> error + tensor" where
  "BertSelfOutput_forward self hidden_states input_tensor =
     bnd (self_output_dense self hidden_states) (\<lambda>h1.
     bnd (self_output_dropout self h1) (\<lambda>h2.
     bnd (add_tensor h2 input_tensor) (\<lambda>h3.
     self_output_LayerNorm self h3)))"

record BertAttention =
  attention_self :: BertSelfAttention
  attention_self_output :: BertSelfOutput

definition BertAttention_forward ::
  "BertAttention \<Rightarrow> nat \<Rightarrow> tensor \<Rightarrow> tensor option \<Rightarrow> tensor option \<Rightarrow> bool \<Rightarrow>
     'm world \<Rightarrow> error + (tensor \<times> tensor option) \<times> 'm world" where
  "BertAttention_forward self lyr hidden_states attention_mask head_mask output_attentions w =
     bnd (BertSelfAttention_forward (attention_self self) lyr hidden_states attention_mask
            head_mask output_attentions w) (\<lambda>((context_layer, attention_probs), w').
     bnd (BertSelfOutput_forward (attention_self_output self) context_layer hidden_states)
       (\<lambda>attention_output. Inr ((attention_output, attention_probs), w')))"

record BertIntermediate =
  intermediate_dense :: nn_fn
  fusion_dense :: nn_fn
  intermediate_act_fn :: nn_fn

definition BertIntermediate_forward ::
  "BertIntermediate \<Rightarrow> tensor \<Rightarrow> tensor option \<Rightarrow> error + tensor" where
  "BertIntermediate_forward self hidden_states fusion_output =
     bnd (intermediate_dense self hidden_states) (\<lambda>h1.
     bnd (case fusion_output of
            None \<Rightarrow> Inr h1
          | Some fo \<Rightarrow> bnd (fusion_dense self fo) (\<lambda>fusion_states. add_tensor h1 fusion_states))
       (\<lambda>h2. intermediate_act_fn self h2))"

record BertOutput =
  output_dense :: nn_fn
  output_dropout :: nn_fn
  output_LayerNorm :: nn_fn

definition BertOutput_forward :: "BertOutput \<Rightarrow> tensor \<Rightarrow> tensor \<Rightarrow> error + tensor" where
  "BertOutput_forward self hidden_states input_tensor =
     bnd (output_dense self hidden_states) (\<lambda>h1.
     bnd (output_dropout self h1) (\<lambda>h2.
     bnd (add_tensor h2 input_tensor) (\<lambda>h3.
     output_LayerNorm self h3)))"

record CLIPEncoderLayer =
  self_attn :: CLIPAttention
  layer_norm1 :: nn_fn
  mlp :: CLIPMLP
  layer_norm2 :: nn_fn

definition CLIPEncoderLayer_forward ::
  "CLIPEncoderLayer \<Rightarrow> nat \<Rightarrow> tensor \<Rightarrow> bool \<Rightarrow> 'm world \<Rightarrow>
     error + (tensor \<times> tensor option) \<times> 'm world" where
  "CLIPEncoderLayer_forward self lyr hidden_states0 output_attentions w =
     (let residual0 = hidden_states0 in
      bnd (layer_norm1 self hidden_states0) (\<lambda>hidden_states1.
      bnd (CLIPAttention_forward (self_attn self) lyr hidden_states1 output_attentions w)
        (\<lambda>((hidden_states2, attn_weights), w').
      bnd (add_tensor residual0 hidden_states2) (\<lambda>hidden_states3.
      let residual = hidden_states3 in
      bnd (layer_norm2 self hidden_states3) (\<lambda>hidden_states4.
      bnd (CLIPMLP_forward (mlp self) hidden_states4) (\<lambda>hidden_states5.
      bnd (add_tensor residual hidden_states5) (\<lambda>hidden_states.
      Inr ((hidden_states, if output_attentions then attn_weights else None), w'))))))))"

text \<open>
  \<open>apply_chunking_to_forward\<close> is a function of the transformers library: it is a field of
  the layer, applied to \<open>feed_forward_chunk\<close>, \<open>chunk_size_feed_forward\<close>, \<open>seq_len_dim\<close> and the
  two arguments \<open>attention_output\<close> and \<open>None\<close>.
\<close>

record BertLayer =
  chunk_size_feed_forward :: nat
  seq_len_dim :: nat
  attention :: BertAttention
  intermediate :: BertIntermediate
  bert_output :: BertOutput
  apply_chunking_to_forward ::
    "(tensor \<Rightarrow> tensor option \<Rightarrow> error + tensor) \<Rightarrow> nat \<Rightarrow> nat \<Rightarrow> tensor \<Rightarrow> tensor option \<Rightarrow>
       error + tensor"

definition feed_forward_chunk :: "BertLayer \<Rightarrow> tensor \<Rightarrow> tensor option \<Rightarrow> error + tensor" where
  "feed_forward_chunk self attention_output fusion_output =
     bnd (BertIntermediate_forward (intermediate self) attention_output fusion_output)
       (\<lambda>intermediate_output.
     BertOutput_forward (bert_output self) intermediate_output attention_output)"

definition BertLayer_forward ::
  "BertLayer \<Rightarrow> nat \<Rightarrow> tensor \<Rightarrow> tensor option \<Rightarrow> tensor option \<Rightarrow> bool \<Rightarrow>
     'm world \<Rightarrow> error + (tensor \<times> tensor option) \<times> 'm world" where
  "BertLayer_forward self lyr hidden_states attention_mask head_mask output_attentions w =
     bnd (BertAttention_forward (attention self) lyr hidden_states attention_mask head_mask
            output_attentions w) (\<lambda>((attention_output, attention_probs), w').
     bnd (apply_chunking_to_forward self (feed_forward_chunk self)
            (chunk_size_feed_forward self) (seq_len_dim self) attention_output None)
       (\<lambda>layer_output. Inr ((layer_output, attention_probs), w')))"

text \<open>
  The values that the tuples returned by the encoder hold: a tensor, a tuple, or \<open>None\<close>.
\<close>

datatype pyval = PyTensor tensor | PyTuple "pyval list" | PyNone

definition py_opt :: "tensor option \<Rightarrow> pyval" where
  "py_opt t = (case t of None \<Rightarrow> PyNone | Some x \<Rightarrow> PyTensor x)"

record UnimoEncoder =
  vision_num_hidden_layers :: nat
  text_num_hidden_layers :: nat
  vision_layers :: "CLIPEncoderLayer list"
  text_layer :: "BertLayer list"

text \<open>The local variables of \<open>UnimoEncoder.forward\<close> that the loop updates.\<close>

record encoder_locals =
  vision_hidden_states :: tensor
  text_hidden_states :: tensor
  all_vision_hidden_states :: "tensor list option"
  all_text_hidden_states :: "tensor list option"
  all_vision_attentions :: "tensor option list option"
  all_text_attentions :: "tensor option list option"

text \<open>One iteration of the loop \<open>for idx in range(num_hidden_layers)\<close>.\<close>

definition UnimoEncoder_iteration ::
  "UnimoEncoder \<Rightarrow> tensor option \<Rightarrow> tensor option list option \<Rightarrow> bool \<Rightarrow> bool \<Rightarrow> nat \<Rightarrow>
     encoder_locals \<Rightarrow> 'm world \<Rightarrow> error + encoder_locals \<times> 'm world" where
  "UnimoEncoder_iteration self attention_mask head_mask output_attentions output_hidden_states
       idx l0 w =
     (let l1 = (if output_hidden_states
                then l0\<lparr>all_vision_hidden_states :=
                          map_option (\<lambda>hs. hs @ [vision_hidden_states l0])
                            (all_vision_hidden_states l0),
                        all_text_hidden_states :=
                          map_option (\<lambda>hs. hs @ [text_hidden_states l0])
                            (all_text_hidden_states l0)\<rparr>
                else l0) in
      bnd (py_getitem (vision_layers self) idx) (\<lambda>vision_layer_module.
      bnd (CLIPEncoderLayer_forward vision_layer_module idx (vision_hidden_states l1)
             output_attentions w) (\<lambda>(vision_layer_output, w1).
      let l2 = l1\<lparr>vision_hidden_states := fst vision_layer_output\<rparr> in
      bnd (case head_mask of
             None \<Rightarrow> Inr None
           | Some hm \<Rightarrow> py_getitem hm idx) (\<lambda>layer_head_mask.
      bnd (py_getitem (text_layer self) idx) (\<lambda>text_layer_module.
      bnd (BertLayer_forward text_layer_module idx (text_hidden_states l2) attention_mask
             layer_head_mask output_attentions w1) (\<lambda>(text_layer_output, w2).
      let l3 = l2\<lparr>text_hidden_states := fst text_layer_output\<rparr> in
      Inr (if output_attentions
           then l3\<lparr>all_vision_attentions :=
                      map_option (\<lambda>as. as @ [snd vision_layer_output])
                        (all_vision_attentions l3),
                    all_text_attentions :=
                      map_option (\<lambda>as. as @ [snd text_layer_output])
                        (all_text_attentions l3)\<rparr>
           else l3, w2)))))))"

fun UnimoEncoder_loop ::
  "UnimoEncoder \<Rightarrow> tensor option \<Rightarrow> tensor option list option \<Rightarrow> bool \<Rightarrow> bool \<Rightarrow> nat list \<Rightarrow>
     encoder_locals \<Rightarrow> 'm world \<Rightarrow> error + encoder_locals \<times> 'm world" where
  "UnimoEncoder_loop self attention_mask head_mask output_attentions output_hidden_states
       [] l w = Inr (l, w)"
| "UnimoEncoder_loop self attention_mask head_mask output_attentions output_hidden_states
       (idx # rest) l w =
     bnd (UnimoEncoder_iteration self attention_mask head_mask output_attentions
            output_hidden_states idx l w) (\<lambda>(l', w').
     UnimoEncoder_loop self attention_mask head_mask output_attentions output_hidden_states
       rest l' w')"

text \<open>
  \<open>UnimoEncoder.forward\<close>. The result is the tuple of the values among \<open>text_hidden_states\<close>,
  \<open>vision_hidden_states\<close>, \<open>all_text_hidden_states\<close> and \<open>all_text_attentions\<close> that are not
  \<open>None\<close>; with \<open>return_dict\<close> the function stops at \<open>assert False\<close>.
\<close>

definition UnimoEncoder_forward ::
  "UnimoEncoder \<Rightarrow> tensor \<Rightarrow> tensor \<Rightarrow> tensor option \<Rightarrow> tensor option list option \<Rightarrow> bool \<Rightarrow>
     bool \<Rightarrow> bool \<Rightarrow> 'm world \<Rightarrow> error + pyval list \<times> 'm world" where
  "UnimoEncoder_forward self vision_embeds text_embeds attention_mask head_mask
       output_attentions output_hidden_states return_dict w =
     bnd (py_assert (vision_num_hidden_layers self = text_num_hidden_layers self)) (\<lambda>_.
     let l0 = \<lparr>vision_hidden_states = vision_embeds,
               text_hidden_states = text_embeds,
               all_vision_hidden_states = (if output_hidden_states then Some [] else None),
               all_text_hidden_states = (if output_hidden_states then Some [] else None),
               all_vision_attentions = (if output_attentions then Some [] else None),
               all_text_attentions = (if output_attentions then Some [] else None)\<rparr> in
     bnd (UnimoEncoder_loop self attention_mask head_mask output_attentions
            output_hidden_states [0..<vision_num_hidden_layers self] l0 w) (\<lambda>(l1, w').
     let l2 = (if output_hidden_states
               then l1\<lparr>all_vision_hidden_states :=
                         map_option (\<lambda>hs. hs @ [vision_hidden_states l1])
                           (all_vision_hidden_states l1),
                       all_text_hidden_states :=
                         map_option (\<lambda>hs. hs @ [text_hidden_states l1])
                           (all_text_hidden_states l1)\<rparr>
               else l1) in
     if \<not> return_dict
     then Inr ([PyTensor (text_hidden_states l2), PyTensor (vision_hidden_states l2)] @
               (case all_text_hidden_states l2 of
                  None \<Rightarrow> [] | Some hs \<Rightarrow> [PyTuple (map PyTensor hs)]) @
               (case all_text_attentions l2 of
                  None \<Rightarrow> [] | Some as \<Rightarrow> [PyTuple (map py_opt as)]), w')
     else Inl AssertionError))"

text \<open>
  Indexing: \<open>t[:, i]\<close> (and \<open>t[:, i, :]\<close> on a tensor of three dimensions), the slice
  \<open>t[:, 0:n]\<close> of a tensor of two dimensions, and \<open>torch.cat((a, b), dim=-1)\<close>.
\<close>

definition select1 :: "tensor \<Rightarrow> nat \<Rightarrow> error + tensor" where
  "select1 t i =
     (if dim t < 2 \<or> shape t ! 1 \<le> i then Inl IndexError
      else Inr (tabulate (hd (shape t) # drop 2 (shape t))
             (\<lambda>idx. el t (hd idx # i # tl idx))))"

definition slice1 :: "tensor \<Rightarrow> nat \<Rightarrow> error + tensor" where
  "slice1 t n =
     (if dim t < 2 then Inl IndexError
      else Inr (tabulate (hd (shape t) # min n (shape t ! 1) # drop 2 (shape t)) (el t)))"

definition cat_last :: "tensor \<Rightarrow> tensor \<Rightarrow> error + tensor" where
  "cat_last a b =
     (if dim a = 0 \<or> dim b = 0 \<or> butlast (shape a) \<noteq> butlast (shape b) then Inl RuntimeError
      else Inr (tabulate (butlast (shape a) @ [last (shape a) + last (shape b)])
             (\<lambda>idx. if last idx < last (shape a) then el a idx
                    else el b (butlast idx @ [last idx - last (shape a)]))))"

definition ones :: "nat list \<Rightarrow> tensor" where
  "ones s = Tensor s (replicate (numel s) 1)"

record BertEmbeddings =
  word_embeddings :: nn_fn
  position_embeddings :: nn_fn
  token_type_embeddings :: nn_fn
  embeddings_LayerNorm :: nn_fn
  embeddings_dropout :: nn_fn
  position_embedding_type :: string
  position_ids_buffer :: tensor

text \<open>
  \<open>BertEmbeddings.forward(input_ids, token_type_ids, position_ids)\<close> as \<open>UnimoModel.forward\<close>
  calls it: \<open>input_ids\<close> and \<open>token_type_ids\<close> are tensors, \<open>inputs_embeds\<close> is \<open>None\<close> and
  \<open>past_key_values_length\<close> is 0. It stores the position embeddings in the class attribute
  \<open>BertEmbeddings.embedding\<close>.
\<close>

definition BertEmbeddings_forward ::
  "BertEmbeddings \<Rightarrow> tensor \<Rightarrow> tensor \<Rightarrow> tensor option \<Rightarrow> 'm world \<Rightarrow> error + tensor \<times> 'm world"
  where
  "BertEmbeddings_forward self input_ids token_type_ids position_ids0 w =
     bnd (shape_at input_ids 1) (\<lambda>seq_length.
     bnd (case position_ids0 of
            None \<Rightarrow> slice1 (position_ids_buffer self) seq_length
          | Some p \<Rightarrow> Inr p) (\<lambda>pos_ids.
     bnd (word_embeddings self input_ids) (\<lambda>inputs_embeds.
     bnd (token_type_embeddings self token_type_ids) (\<lambda>tt_embeddings.
     bnd (add_tensor inputs_embeds tt_embeddings) (\<lambda>embeddings0.
     bnd (if position_embedding_type self = ''absolute''
          then bnd (position_embeddings self pos_ids) (\<lambda>pe.
               bnd (iadd_tensor embeddings0 pe) (\<lambda>e.
               Inr (e, w\<lparr>BertEmbeddings_embedding := Some pe\<rparr>)))
          else Inr (embeddings0, w)) (\<lambda>(embeddings1, w').
     bnd (embeddings_LayerNorm self embeddings1) (\<lambda>embeddings2.
     bnd (embeddings_dropout self embeddings2) (\<lambda>embeddings.
     Inr (embeddings, w')))))))))"

record Classifier =
  classifier_dense :: nn_fn
  classifier_dropout :: nn_fn

text \<open>\<open>TextClassifier.forward\<close> and \<open>VisionClassifier.forward\<close> have the same body.\<close>

definition TextClassifier_forward :: "Classifier \<Rightarrow> tensor \<Rightarrow> error + tensor" where
  "TextClassifier_forward self hidden_states =
     bnd (select1 hidden_states 0) (\<lambda>first_token_tensor.
     classifier_dense self first_token_tensor)"

definition VisionClassifier_forward :: "Classifier \<Rightarrow> tensor \<Rightarrow> error + tensor" where
  "VisionClassifier_forward self hidden_states =
     bnd (select1 hidden_states 0) (\<lambda>first_token_tensor.
     classifier_dense self first_token_tensor)"

definition CatClassifier_forward :: "Classifier \<Rightarrow> tensor \<Rightarrow> tensor \<Rightarrow> error + tensor" where
  "CatClassifier_forward self vision_seq_in_text text_seq =
     bnd (cat_last vision_seq_in_text text_seq) (\<lambda>cat_tensor0.
     bnd (classifier_dropout self cat_tensor0) (\<lambda>cat_tensor.
     classifier_dense self cat_tensor))"

text \<open>
  \<open>CLIPVisionEmbeddings.forward\<close> is a field of the model: a function of \<open>pixel_values\<close>,
  \<open>aux_values\<close> and \<open>rcnn_values\<close>.
\<close>

record UnimoModel =
  vision_embeddings :: "tensor \<Rightarrow> tensor list option \<Rightarrow> tensor list option \<Rightarrow> error + tensor"
  vision_pre_layrnorm :: nn_fn
  text_embeddings :: BertEmbeddings
  text_classifier :: Classifier
  vision_classifier :: Classifier
  cat_classifier :: Classifier
  encoder :: UnimoEncoder

definition fusion_module :: "tensor \<Rightarrow> tensor \<Rightarrow> 'm world \<Rightarrow> error + tensor" where
  "fusion_module text_seq vision_seq w =
     bnd (if dim vision_seq < 3 then Inl IndexError else select1 vision_seq 0) (\<lambda>c.
     let vision_seq_cls = unsqueeze 1 c in
     case BertEmbeddings_embedding w of
       None \<Rightarrow> Inl TypeError
     | Some e \<Rightarrow> add_tensor vision_seq_cls e)"

text \<open>
  The result of \<open>UnimoModel.forward\<close>: the tuple of three values that the \<open>'cat'\<close> branch
  returns, or the tuple of four values of the last \<open>return\<close>.
\<close>

datatype model_output =
    CatOutput tensor tensor tensor
  | SepOutput tensor tensor tensor tensor

definition UnimoModel_forward ::
  "UnimoModel \<Rightarrow> tensor \<Rightarrow> tensor option \<Rightarrow> tensor option \<Rightarrow> tensor option \<Rightarrow> tensor option \<Rightarrow>
     tensor \<Rightarrow> tensor list option \<Rightarrow> tensor list option \<Rightarrow> bool \<Rightarrow> bool \<Rightarrow> bool \<Rightarrow>
     'm world \<Rightarrow> error + model_output \<times> 'm world" where
  "UnimoModel_forward self input_ids attention_mask0 token_type_ids position_ids head_mask0
       pixel_values aux_values rcnn_values output_attentions output_hidden_states return_dict w =
     bnd (vision_embeddings self pixel_values aux_values rcnn_values) (\<lambda>ve0.
     bnd (vision_pre_layrnorm self ve0) (\<lambda>vision_embedding_output.
     let input_shape = shape input_ids in
     bnd (if dim input_ids = 2 then Inr (input_shape ! 0, input_shape ! 1) else Inl ValueError)
       (\<lambda>(batch_size, seq_length).
     let attention_mask = (case attention_mask0 of
                             None \<Rightarrow> ones [batch_size, seq_length]
                           | Some am \<Rightarrow> am) in
     bnd (case token_type_ids of None \<Rightarrow> Inl ValueError | Some tt \<Rightarrow> Inr tt) (\<lambda>tt.
     bnd (get_extended_attention_mask attention_mask input_shape ''cuda'')
       (\<lambda>extended_attention_mask.
     let head_mask = get_head_mask head_mask0 (int (text_num_hidden_layers (encoder self))) False
     in
     bnd (BertEmbeddings_forward (text_embeddings self) input_ids tt position_ids w)
       (\<lambda>(text_embedding_output, w1).
     bnd (UnimoEncoder_forward (encoder self) vision_embedding_output text_embedding_output
            (Some extended_attention_mask) None output_attentions output_hidden_states False w1)
       (\<lambda>(encoder_outputs, w2).
     bnd (bnd (py_getitem encoder_outputs 0)
            (\<lambda>v. case v of PyTensor t \<Rightarrow> Inr t | _ \<Rightarrow> Inl TypeError)) (\<lambda>text_output.
     bnd (bnd (py_getitem encoder_outputs 1)
            (\<lambda>v. case v of PyTensor t \<Rightarrow> Inr t | _ \<Rightarrow> Inl TypeError)) (\<lambda>vision_output.
     bnd (py_getitem [''sep'', ''cat''] 1) (\<lambda>mode.
     bnd (if mode = ''sep''
          then bnd (TextClassifier_forward (text_classifier self) text_output) (\<lambda>text_logits.
               bnd (VisionClassifier_forward (vision_classifier self) vision_output)
                 (\<lambda>vision_logits. Inr (Inr (text_logits, vision_logits))))
          else if mode = ''cat''
          then bnd (fusion_module text_output vision_output w2) (\<lambda>vision_seq_in_text.
               bnd (CatClassifier_forward (cat_classifier self) vision_seq_in_text text_output)
                 (\<lambda>cat_logits. Inr (Inl (CatOutput text_output vision_seq_in_text cat_logits))))
          else Inl AssertionError) (\<lambda>r.
     case r of
       Inl returned \<Rightarrow> Inr (returned, w2)
     | Inr (text_logits, vision_logits) \<Rightarrow>
         Inr (SepOutput text_output vision_output text_logits vision_logits, w2))))))))))))"

section \<open>An example configuration\<close>

text \<open>
  Modules and a state for concrete runs: two heads of dimension 1, sequences of length 2,
  twelve layers. Every learned module is the identity, except the last module of each
  residual branch, which returns zeros: a layer then returns its input.
\<close>

definition clip_attention_example :: CLIPAttention where
  "clip_attention_example =
     \<lparr>clip_num_heads = 2, clip_head_dim = 1, scale = 1, clip_dropout = Inr, clip_softmax = Inr,
      k_proj = Inr, v_proj = Inr, q_proj = Inr, out_proj = Inr\<rparr>"

definition bert_attention_example :: BertSelfAttention where
  "bert_attention_example =
     \<lparr>num_attention_heads = 2, attention_head_size = 1, all_head_size = 2,
      bert_query = Inr, bert_key = Inr, bert_value = Inr, bert_softmax = Inr,
      bert_dropout = Inr\<rparr>"

definition share_key_example :: ShareKey_state where
  "share_key_example =
     \<lparr>v_max_l = 2, t_max_l = 2, num_heads = 2, head_dim = 1,
      key = Some (replicate 12 (Tensor [1, 2, 1, 1] [1, 2])),
      vision_bias = Some (replicate 12 (Tensor [2, 2, 2] [1, 0, 0, 1, 2, 0, 0, 2])),
      text_bias = Some (replicate 12 (Tensor [2, 2, 2] [0, 1, 1, 0, 0, 3, 3, 0])),
      text_bn = replicate 12 (BatchNorm2d 2), vision_bn = replicate 12 (BatchNorm2d 2),
      layer = 12\<rparr>"

definition world_example :: "unit world" where
  "world_example =
     \<lparr>ShareKey = share_key_example,
      AttentionReg = \<lparr>old_model = None, old_key = None, old_text_bias = None,
                      old_vision_bias = None, attention_text_list = [],
                      attention_vision_list = [], zero = Tensor [1] [0]\<rparr>,
      BertEmbeddings_embedding = None,
      BertSelfAttention_MODIFY = False\<rparr>"

definition zeros_like :: nn_fn where
  "zeros_like t = Inr (map_tensor (\<lambda>_. 0) t)"

definition clip_layer_example :: CLIPEncoderLayer where
  "clip_layer_example =
     \<lparr>self_attn = clip_attention_example\<lparr>out_proj := zeros_like\<rparr>, layer_norm1 = Inr,
      mlp = \<lparr>fc1 = Inr, activation_fn = Inr, fc2 = zeros_like\<rparr>, layer_norm2 = Inr\<rparr>"

definition bert_layer_example :: BertLayer where
  "bert_layer_example =
     \<lparr>chunk_size_feed_forward = 0, seq_len_dim = 1,
      attention = \<lparr>attention_self = bert_attention_example,
                   attention_self_output = \<lparr>self_output_dense = zeros_like,
                                            self_output_dropout = Inr,
                                            self_output_LayerNorm = Inr\<rparr>\<rparr>,
      intermediate = \<lparr>intermediate_dense = Inr, fusion_dense = Inr, intermediate_act_fn = Inr\<rparr>,
      bert_output = \<lparr>output_dense = zeros_like, output_dropout = Inr, output_LayerNorm = Inr\<rparr>,
      apply_chunking_to_forward = (\<lambda>forward_fn chunk_size chunk_dim a b. forward_fn a b)\<rparr>"

definition encoder_example :: "nat \<Rightarrow> UnimoEncoder" where
  "encoder_example n =
     \<lparr>vision_num_hidden_layers = n, text_num_hidden_layers = n,
      vision_layers = replicate n clip_layer_example,
      text_layer = replicate n bert_layer_example\<rparr>"

section \<open>The effect of a forward pass on the recorded scores\<close>

text \<open>
  The state after \<open>vs\<close> has been appended to \<open>AttentionReg.attention_vision_list\<close> and \<open>ts\<close> to
  \<open>AttentionReg.attention_text_list\<close>, everything else as it was.
\<close>

definition append_attention :: "tensor list \<Rightarrow> tensor list \<Rightarrow> 'm world \<Rightarrow> 'm world" where
  "append_attention vs ts w =
     w\<lparr>AttentionReg := (AttentionReg w)
          \<lparr>attention_vision_list := attention_vision_list (AttentionReg w) @ vs,
           attention_text_list := attention_text_list (AttentionReg w) @ ts\<rparr>\<rparr>"

text \<open>
  The entry that a shared layer \<open>idx\<close> of the text stream records: the scores of
  \<open>cal_attention\<close>, scaled and masked, and with \<open>MODIFY\<close> the masked positions set to zero.
\<close>

definition text_entry ::
  "BertSelfAttention \<Rightarrow> tensor option \<Rightarrow> 'm world \<Rightarrow> nat \<Rightarrow> tensor \<Rightarrow> bool" where
  "text_entry self attention_mask w idx entry \<longleftrightarrow>
     (\<exists>q aw scores.
        cal_attention (ShareKey w) q idx ''text'' 4 = Inr aw \<and>
        BertSelfAttention_scores self attention_mask aw = Inr scores \<and>
        (if BertSelfAttention_MODIFY w
         then where_less scores (- 9000) (zero (AttentionReg w)) else Inr scores) = Inr entry)"

definition vision_entry :: "'m world \<Rightarrow> nat \<Rightarrow> tensor \<Rightarrow> bool" where
  "vision_entry w idx entry \<longleftrightarrow>
     (\<exists>q. cal_attention (ShareKey w) q idx ''vision'' 3 = Inr entry)"


section \<open>The alternation of the two streams\<close>

text \<open>
  The strict alternation of the two streams as the specification describes it, without the
  bookkeeping of \<open>UnimoEncoder.forward\<close>: for each index of the list in turn, vision layer
  \<open>idx\<close> is applied to the vision hidden states, then text layer \<open>idx\<close>, with its head mask,
  to the text hidden states, in the state that the vision layer left; the output of each
  stream is the input of the same stream at the next index. The first step that raises
  ends the pass with its exception, so that no later layer runs.
\<close>

fun alternating_streams ::
  "UnimoEncoder \<Rightarrow> tensor option \<Rightarrow> tensor option list option \<Rightarrow> bool \<Rightarrow> nat list \<Rightarrow>
     tensor \<times> tensor \<times> 'm world \<Rightarrow> error + tensor \<times> tensor \<times> 'm world" where
  "alternating_streams self attention_mask head_mask output_attentions [] s = Inr s"
| "alternating_streams self attention_mask head_mask output_attentions (idx # rest) (v, t, w) =
     bnd (py_getitem (vision_layers self) idx) (\<lambda>vision_layer_module.
     bnd (CLIPEncoderLayer_forward vision_layer_module idx v output_attentions w)
       (\<lambda>(vision_layer_output, w1).
     bnd (case head_mask of
            None \<Rightarrow> Inr None
          | Some hm \<Rightarrow> py_getitem hm idx) (\<lambda>layer_head_mask.
     bnd (py_getitem (text_layer self) idx) (\<lambda>text_layer_module.
     bnd (BertLayer_forward text_layer_module idx t attention_mask layer_head_mask
            output_attentions w1) (\<lambda>(text_layer_output, w2).
     alternating_streams self attention_mask head_mask output_attentions rest
       (fst vision_layer_output, fst text_layer_output, w2))))))"

text \<open>
  An encoder of two layers in which text layer 0 raises \<open>TypeError\<close> and vision layer 1
  raises \<open>ValueError\<close>.
\<close>

definition encoder_raising_example :: UnimoEncoder where
  "encoder_raising_example =
     \<lparr>vision_num_hidden_layers = 2, text_num_hidden_layers = 2,
      vision_layers = [clip_layer_example,
                       clip_layer_example\<lparr>layer_norm1 := (\<lambda>x. Inl ValueError)\<rparr>],
      text_layer = [bert_layer_example
                      \<lparr>bert_output := \<lparr>output_dense = (\<lambda>x. Inl TypeError),
                                        output_dropout = Inr, output_LayerNorm = Inr\<rparr>\<rparr>,
                    bert_layer_example]\<rparr>"

definition encoder_state :: "encoder_locals \<times> 'm world \<Rightarrow> tensor \<times> tensor \<times> 'm world" where
  "encoder_state = (\<lambda>(l, w). (vision_hidden_states l, text_hidden_states l, w))"

section \<open>An example model\<close>

text \<open>
  A model over the example encoder of twelve layers. The text and vision classifiers raise
  whenever they are called.
\<close>

definition model_example :: UnimoModel where
  "model_example =
     \<lparr>vision_embeddings = (\<lambda>pixel_values aux_values rcnn_values. Inr pixel_values),
      vision_pre_layrnorm = Inr,
      text_embeddings =
        \<lparr>word_embeddings = (\<lambda>ids. Inr (Tensor [1, 2, 2] [1, 0, 0, 1])),
         position_embeddings = (\<lambda>ids. Inr (Tensor [1, 2, 2] [10, 20, 30, 40])),
         token_type_embeddings = (\<lambda>ids. Inr (Tensor [1, 2, 2] [0, 0, 0, 0])),
         embeddings_LayerNorm = Inr, embeddings_dropout = Inr,
         position_embedding_type = ''absolute'',
         position_ids_buffer = Tensor [1, 2] [0, 1]\<rparr>,
      text_classifier = \<lparr>classifier_dense = (\<lambda>x. Inl RuntimeError),
                         classifier_dropout = (\<lambda>x. Inl RuntimeError)\<rparr>,
      vision_classifier = \<lparr>classifier_dense = (\<lambda>x. Inl RuntimeError),
                           classifier_dropout = (\<lambda>x. Inl RuntimeError)\<rparr>,
      cat_classifier = \<lparr>classifier_dense = Inr, classifier_dropout = Inr\<rparr>,
      encoder = encoder_example 12\<rparr>"

section \<open>Properties\<close>

lemma bnd_Inr [simp]: "bnd (Inr x) f = f x"
  by (simp add: bnd_def)

lemma bnd_Inl [simp]: "bnd (Inl e) f = Inl e"
  by (simp add: bnd_def)

text \<open>
  C9: \<open>get_head_mask\<close> ignores its \<open>head_mask\<close> argument: for every \<open>head_mask\<close>, also a
  tensor, and every \<open>num_hidden_layers\<close> \<open>n\<close> it returns \<open>[None] * n\<close>, the same list as for
  \<open>head_mask = None\<close>.
\<close>

theorem get_head_mask_ignores_head_mask:
  "get_head_mask head_mask n chunked = replicate (nat n) None \<and>
   get_head_mask head_mask n chunked = get_head_mask None n chunked' \<and>
   int (length (get_head_mask head_mask n chunked)) = max 0 n"
  by (simp add: get_head_mask_def)

text \<open>
  C6: \<open>change_ShareKey\<close> exchanges \<open>ShareKey.(key, text_bias, vision_bias)\<close> with
  \<open>AttentionReg.(old_key, old_text_bias, old_vision_bias)\<close> and changes nothing else, so
  two calls in succession restore the whole state.
\<close>

theorem change_ShareKey_swaps_and_is_involution:
  "key (ShareKey (change_ShareKey w)) = old_key (AttentionReg w) \<and>
   text_bias (ShareKey (change_ShareKey w)) = old_text_bias (AttentionReg w) \<and>
   vision_bias (ShareKey (change_ShareKey w)) = old_vision_bias (AttentionReg w) \<and>
   old_key (AttentionReg (change_ShareKey w)) = key (ShareKey w) \<and>
   old_text_bias (AttentionReg (change_ShareKey w)) = text_bias (ShareKey w) \<and>
   old_vision_bias (AttentionReg (change_ShareKey w)) = vision_bias (ShareKey w) \<and>
   change_ShareKey (change_ShareKey w) = w"
  by (simp add: change_ShareKey_def Let_def)

lemma dim_unsqueeze: "dim (unsqueeze d t) = Suc (dim t)"
  by (simp add: dim_def unsqueeze_def)

text \<open>
  C10: \<open>get_extended_attention_mask\<close> raises, and then a \<open>ValueError\<close>, exactly when the
  mask has a number of dimensions other than 2 or 3. Otherwise it returns a 4-dimensional
  tensor whose dimension 1 (the heads) has size 1, with the elements of the mask in the
  same order, an element 1 replaced by 0 and an element 0 by -10000.
\<close>

theorem get_extended_attention_mask_spec:
  "(get_extended_attention_mask m s d = Inl ValueError \<longleftrightarrow> dim m \<noteq> 2 \<and> dim m \<noteq> 3) \<and>
   (\<forall>e. get_extended_attention_mask m s d = Inl e \<longrightarrow> e = ValueError) \<and>
   (dim m = 2 \<or> dim m = 3 \<longrightarrow>
      (\<exists>r. get_extended_attention_mask m s d = Inr r \<and>
           dim r = 4 \<and> shape r ! 0 = shape m ! 0 \<and> shape r ! 1 = 1 \<and>
           shape r ! 2 = (if dim m = 3 then shape m ! 1 else 1) \<and>
           shape r ! 3 = last (shape m) \<and>
           length (data r) = length (data m) \<and>
           (\<forall>k < length (data m).
              (data m ! k = 1 \<longrightarrow> data r ! k = 0) \<and>
              (data m ! k = 0 \<longrightarrow> data r ! k = - 10000))))"
proof (cases m)
  case (Tensor sh dt)
  note defs = get_extended_attention_mask_def dim_def unsqueeze_def to_long_def
    map_tensor_def trunc_def
  show ?thesis
  proof (cases sh)
    case Nil
    with Tensor show ?thesis by (simp add: defs)
  next
    case c1: (Cons a as)
    show ?thesis
    proof (cases as)
      case Nil
      with Tensor c1 show ?thesis by (simp add: defs)
    next
      case c2: (Cons b bs)
      show ?thesis
      proof (cases bs)
        case Nil
        with Tensor c1 c2 show ?thesis by (simp add: defs)
      next
        case c3: (Cons c cs)
        show ?thesis
        proof (cases cs)
          case Nil
          with Tensor c1 c2 c3 show ?thesis by (simp add: defs)
        next
          case (Cons e es)
          with Tensor c1 c2 c3 show ?thesis by (simp add: defs)
        qed
      qed
    qed
  qed
qed

theorem get_extended_attention_mask_spec_witness:
  "dim (Tensor [1, 2] [1, 0]) = 2 \<and>
   get_extended_attention_mask (Tensor [1, 2] [1, 0]) [1, 2] ''cuda'' =
     Inr (Tensor [1, 1, 1, 2] [0, - 10000]) \<and>
   get_extended_attention_mask (Tensor [2] [1, 0]) [2] ''cuda'' = Inl ValueError"
  using get_extended_attention_mask_spec [of "Tensor [1, 2] [1, 0]" "[1, 2]" "''cuda''"]
        get_extended_attention_mask_spec [of "Tensor [2] [1, 0]" "[2]" "''cuda''"]
  by (simp add: get_extended_attention_mask_def dim_def unsqueeze_def to_long_def
      map_tensor_def trunc_def)

subsection \<open>Indexing\<close>

lemma numel_Nil [simp]: "numel [] = 1"
  by (simp add: numel_def)

lemma numel_Cons [simp]: "numel (n # ns) = n * numel ns"
  by (simp add: numel_def)

lemma valid_index_Nil [simp]: "valid_index [] idx \<longleftrightarrow> idx = []"
  by (simp add: valid_index_def)

lemma valid_index_Cons [simp]:
  "valid_index (n # ns) idx \<longleftrightarrow> (\<exists>i js. idx = i # js \<and> i < n \<and> valid_index ns js)"
  by (cases idx) (simp_all add: valid_index_def)

lemma ravel_less: "valid_index s idx \<Longrightarrow> ravel s idx < numel s"
proof (induction s arbitrary: idx)
  case Nil
  then show ?case by simp
next
  case (Cons n ns)
  then obtain i js where idx: "idx = i # js" and i: "i < n" and js: "valid_index ns js"
    by auto
  have r: "ravel ns js < numel ns" using Cons.IH js by simp
  have "i * numel ns + ravel ns js < i * numel ns + numel ns" using r by simp
  also have "\<dots> = Suc i * numel ns" by simp
  also have "\<dots> \<le> n * numel ns" using i by (intro mult_le_mono1) simp
  finally show ?case using idx by simp
qed

lemma unravel_ravel: "valid_index s idx \<Longrightarrow> unravel s (ravel s idx) = idx"
proof (induction s arbitrary: idx)
  case Nil
  then show ?case by simp
next
  case (Cons n ns)
  then obtain i js where idx: "idx = i # js" and i: "i < n" and js: "valid_index ns js"
    by auto
  have r: "ravel ns js < numel ns" using ravel_less js by simp
  then show ?case using idx Cons.IH [OF js] by simp
qed

lemma shape_tabulate [simp]: "shape (tabulate s f) = s"
  by (simp add: tabulate_def)

lemma wf_tabulate [simp]: "wf_tensor (tabulate s f)"
  by (simp add: tabulate_def wf_tensor_def)

lemma el_tabulate: "valid_index s idx \<Longrightarrow> el (tabulate s f) idx = f idx"
  using ravel_less [of s idx] unravel_ravel [of s idx]
  by (simp add: el_def tabulate_def)

subsection \<open>The shared attention scores\<close>

lemma bsel: "i < n \<Longrightarrow> (if n = Suc 0 then 0 else i) = i"
  by auto

lemma infer_size_view4:
  assumes "0 < B" "0 < H" "0 < D"
  shows "infer_size [int B, int H, - 1, int D] (numel [B * H, L, D]) = Inr [B, H, L, D]"
proof -
  have k: "B * H * D \<noteq> 0" using assms by simp
  have e: "B * H * (L * D) = L * (B * H * D)" by (simp add: algebra_simps)
  have m: "B * H * (L * D) mod (B * H * D) = 0" by (simp add: e)
  have d: "B * H * (L * D) div (B * H * D) = L" using k by (simp add: e)
  show ?thesis using k m d assms
    by (simp add: infer_size_def Let_def nat_mult_distrib mult.assoc)
qed

lemma infer_size_reshape3:
  "infer_size [int (B * H), int L, int M] (numel [B, H, L, M]) = Inr [B * H, L, M]"
  by (simp add: infer_size_def Let_def mult.assoc del: of_nat_mult)

lemma tensor_collapse: "Tensor (shape t) (data t) = t"
  by simp

lemma broadcast_shapes_batch: "broadcast_shapes [B, H] [Suc 0, H] = Inr [B, H]"
  by (simp add: broadcast_shapes_def)

lemma broadcast_shapes_bias: "broadcast_shapes [B, H, L, L] [Suc 0, H, L, L] = Inr [B, H, L, L]"
  by (simp add: broadcast_shapes_def)

lemma matmul_query_key:
  assumes q: "shape q = [B, H, L, D]" and k: "shape k = [1, H, D, 1]"
  shows "matmul q k = Inr (tabulate [B, H, L, 1]
           (\<lambda>idx. sum_list (map (\<lambda>d. el q (bidx [B, H] (take 2 idx) @ [idx ! 2, d]) *
                                      el k (bidx [1, H] (take 2 idx) @ [d, idx ! 3])) [0..<D])))"
proof -
  have nd: "matmul_nd q k = Inr (tabulate [B, H, L, 1]
           (\<lambda>idx. sum_list (map (\<lambda>d. el q (bidx [B, H] (take 2 idx) @ [idx ! 2, d]) *
                                      el k (bidx [1, H] (take 2 idx) @ [d, idx ! 3])) [0..<D])))"
    by (simp add: matmul_nd_def q k broadcast_shapes_batch Let_def numeral_2_eq_2 numeral_3_eq_3)
  show ?thesis
    by (simp add: matmul_def dim_def q k nd Let_def tabulate_def)
qed

lemma expandable_scores: "expandable [B, H, L, Suc 0] [B, H, L, L]"
  by (simp add: expandable_def)

lemma ravel_merge_heads:
  "ravel [B * H, L, D] [b * H + h, i, d] = ravel [B, H, L, D] [b, h, i, d]"
  by (simp add: algebra_simps)

lemma cal_attention_scores:
  assumes H: "num_heads cls = H" "0 < H" and D: "head_dim cls = D" "0 < D" and B: "0 < B"
    and m: "modality = ''text'' \<or> modality = ''vision''"
    and bias: "bias_of cls modality = Some bl" "lyr < length bl" "shape (bl ! lyr) = [H, L, L]"
    and bn: "lyr < length (bn_of cls modality)"
    and k: "key cls = Some kl" "lyr < length kl" "shape (kl ! lyr) = [1, H, D, 1]"
    and q: "shp = 3 \<and> shape q = [B * H, L, D] \<or> shp = 4 \<and> shape q = [B, H, L, D]"
  shows "\<exists>W. cal_attention cls q lyr modality shp = Inr W \<and>
           shape W = (if shp = 3 then [B * H, L, L] else [B, H, L, L]) \<and>
           wf_tensor W \<and>
           (\<forall>b<B. \<forall>h<H. \<forall>i<L. \<forall>j<L.
              el W (if shp = 3 then [b * H + h, i, j] else [b, h, i, j]) =
                (\<Sum>d<D. el q (if shp = 3 then [b * H + h, i, d] else [b, h, i, d]) *
                          el (kl ! lyr) [0, h, d, 0]) +
                el (bl ! lyr) [h, i, j])"
proof -
  define q1 where "q1 = Tensor [B * H, L, D] (data q)"
  define q4 where "q4 = Tensor [B, H, L, D] (data q)"
  define a1 where "a1 = tabulate [B, H, L, 1]
           (\<lambda>idx. sum_list (map (\<lambda>d. el q4 (bidx [B, H] (take 2 idx) @ [idx ! 2, d]) *
                        el (kl ! lyr) (bidx [1, H] (take 2 idx) @ [d, idx ! 3])) [0..<D]))"
  define a2 where "a2 = tabulate [B, H, L, L] (\<lambda>idx. el a1 (bidx (shape a1) idx))"
  define a3 where "a3 = tabulate [B, H, L, L]
       (\<lambda>idx. el a2 (bidx (shape a2) idx) +
              el (unsqueeze 0 (bl ! lyr)) (bidx (shape (unsqueeze 0 (bl ! lyr))) idx))"
  define W where "W = (if shp = 3 then Tensor [B * H, L, L] (data a3) else a3)"
  have shp: "shp = 3 \<or> shp = 4" using q by auto
  have pre: "(if shp = 4
          then bnd (shape_at q 0) (\<lambda>s0.
               bnd (shape_at q 1) (\<lambda>s1.
               bnd (shape_at q 2) (\<lambda>s2.
               bnd (shape_at q 3) (\<lambda>s3.
                 reshape q [int (s0 * s1), int s2, int s3]))))
          else Inr q) = Inr q1"
  proof (cases "shp = 4")
    case True
    with q have sq: "shape q = [B, H, L, D]" by simp
    show ?thesis using True infer_size_reshape3 [of B H L D]
      by (simp add: shape_at_def py_getitem_def sq reshape_def view_def q1_def del: of_nat_mult)
  next
    case False
    with q have sq: "shape q = [B * H, L, D]" by simp
    have "q1 = q" unfolding q1_def sq [symmetric] by simp
    with False show ?thesis by simp
  qed
  have s0: "shape_at q1 0 = Inr (B * H)"
    by (simp add: shape_at_def py_getitem_def q1_def)
  have md: "py_mod (B * H) H = Inr 0" using H by (simp add: py_mod_def)
  have bsz: "B * H div H = B" using H by simp
  have v: "view q1 [int B, int H, - 1, int D] = Inr q4"
    using infer_size_view4 [OF B H(2) D(2), of L] by (simp add: view_def q1_def q4_def)
  have gb: "(if modality = ''vision'' then py_getitem_opt (vision_bias cls) lyr
          else py_getitem_opt (text_bias cls) lyr) = Inr (bl ! lyr)"
    using bias by (auto simp: bias_of_def py_getitem_opt_def py_getitem_def split: if_splits)
  obtain n where gn: "(if modality = ''vision'' then py_getitem (vision_bn cls) lyr
          else py_getitem (text_bn cls) lyr) = Inr n"
    using bn by (auto simp: bn_of_def py_getitem_def split: if_splits)
  have gk: "py_getitem_opt (key cls) lyr = Inr (kl ! lyr)"
    using k by (simp add: py_getitem_opt_def py_getitem_def)
  have mm: "matmul q4 (kl ! lyr) = Inr a1"
    unfolding a1_def by (rule matmul_query_key) (simp_all add: q4_def k)
  have l1: "shape_at a1 2 = Inr L"
    by (simp add: shape_at_def py_getitem_def a1_def)
  have ex: "expand a1 [B, H, L, L] = Inr a2"
    using expandable_scores [of B H L] by (simp add: expand_def a1_def a2_def)
  have ad: "add_tensor a2 (unsqueeze 0 (bl ! lyr)) = Inr a3"
    by (simp add: add_tensor_def binop_def a2_def a3_def unsqueeze_def bias
        broadcast_shapes_bias)
  have l2: "shape_at a3 2 = Inr L"
    by (simp add: shape_at_def py_getitem_def a3_def)
  have sh3: "shape a3 = [B, H, L, L]"
    by (simp add: a3_def)
  have rs: "reshape a3 [int (B * H), int L, int L] = Inr (Tensor [B * H, L, L] (data a3))"
    using infer_size_reshape3 [of B H L L] by (simp add: reshape_def view_def sh3)
  have fin: "(if shp = 3
     then bnd (shape_at a3 2) (\<lambda>l2. reshape a3 [int (B * H), int l2, int l2])
     else Inr a3) = Inr W"
    by (simp add: l2 rs W_def del: of_nat_mult)
  have run: "cal_attention cls q lyr modality shp = Inr W"
    unfolding cal_attention_def pre
    using m shp
    by (auto simp add: py_assert_def s0 H(1) D(1) md bsz v gb gn gk mm l1 ex ad l2 rs W_def
        Let_def simp del: of_nat_mult)
  have shW: "shape W = (if shp = 3 then [B * H, L, L] else [B, H, L, L])"
    by (simp add: W_def sh3)
  have wf: "wf_tensor W"
    by (simp add: W_def a3_def wf_tensor_def tabulate_def mult.assoc)
  have elem: "el W (if shp = 3 then [b * H + h, i, j] else [b, h, i, j]) =
                (\<Sum>d<D. el q (if shp = 3 then [b * H + h, i, d] else [b, h, i, d]) *
                          el (kl ! lyr) [0, h, d, 0]) +
                el (bl ! lyr) [h, i, j]"
    if b: "b < B" and h: "h < H" and i: "i < L" and j: "j < L" for b h i j
  proof -
    have vi: "valid_index [B, H, L, L] [b, h, i, j]" using b h i j by simp
    have vi1: "valid_index [B, H, L, Suc 0] [b, h, i, 0]" using b h i by simp
    have "el W (if shp = 3 then [b * H + h, i, j] else [b, h, i, j]) = el a3 [b, h, i, j]"
    proof (cases "shp = 3")
      case True
      then have w: "W = Tensor [B * H, L, L] (data a3)" by (simp add: W_def)
      have "el W [b * H + h, i, j] = el a3 [b, h, i, j]"
        by (simp only: el_def w sh3 tensor.sel ravel_merge_heads)
      with True show ?thesis by simp
    next
      case False
      then show ?thesis by (simp add: W_def)
    qed
    also have "\<dots> = el a2 [b, h, i, j] + el (bl ! lyr) [h, i, j]"
      unfolding a3_def using b h i j
      by (simp add: el_tabulate [OF vi] a2_def bidx_def unsqueeze_def bias bsel)
         (simp add: el_def bias(3))
    also have "el a2 [b, h, i, j] = el a1 [b, h, i, 0]"
      unfolding a2_def using b h i j
      by (simp add: el_tabulate [OF vi] a1_def bidx_def bsel)
    also have "el a1 [b, h, i, 0] =
        sum_list (map (\<lambda>d. el q4 [b, h, i, d] * el (kl ! lyr) [0, h, d, 0]) [0..<D])"
      unfolding a1_def using b h i
      by (simp add: el_tabulate [OF vi1] bidx_def bsel numeral_2_eq_2 numeral_3_eq_3)
    also have "\<dots> = (\<Sum>d<D. el q4 [b, h, i, d] * el (kl ! lyr) [0, h, d, 0])"
      by (simp add: sum_list_sum_nth atLeast0LessThan)
    also have "\<dots> = (\<Sum>d<D. el q (if shp = 3 then [b * H + h, i, d] else [b, h, i, d]) *
                          el (kl ! lyr) [0, h, d, 0])"
    proof (cases "shp = 3")
      case True
      with q have sq: "shape q = [B * H, L, D]" by simp
      have "el q4 [b, h, i, d] = el q [b * H + h, i, d]" for d
        by (simp only: el_def q4_def sq tensor.sel ravel_merge_heads)
      with True show ?thesis by simp
    next
      case False
      with q have sq: "shape q = [B, H, L, D]" by simp
      show ?thesis using False by (simp add: el_def q4_def sq)
    qed
    finally show ?thesis .
  qed
  show ?thesis using run shW wf elem by blast
qed

text \<open>
  C2 (amended): let the query have shape \<open>[bsz * num_heads, length, head_dim]\<close> with
  \<open>bsz \<ge> 1\<close> and \<open>head_dim \<ge> 1\<close>, let the layer be valid, with a key of shape
  \<open>[1, num_heads, head_dim, 1]\<close>, and let \<open>length\<close> be the side of the modality's bias, of
  shape \<open>[num_heads, length, length]\<close>. Then \<open>cal_attention\<close> returns a tensor \<open>W\<close> of shape
  \<open>[bsz * num_heads, length, length]\<close> with
  \<open>W[b * num_heads + h, i, j] = (\<Sum>d. query[b * num_heads + h, i, d] * key[0, h, d, 0]) + bias[h, i, j]\<close>,
  so the scores depend on \<open>j\<close> only through the bias.
\<close>

theorem cal_attention_query_key_bias:
  assumes "num_heads cls = H" "0 < H" and "head_dim cls = D" "0 < D" and "0 < B"
    and "modality = ''text'' \<or> modality = ''vision''"
    and "bias_of cls modality = Some bl" "lyr < length bl" "shape (bl ! lyr) = [H, L, L]"
    and "lyr < length (bn_of cls modality)"
    and "key cls = Some kl" "lyr < length kl" "shape (kl ! lyr) = [1, H, D, 1]"
    and "shape q = [B * H, L, D]"
  shows "\<exists>W. cal_attention cls q lyr modality 3 = Inr W \<and> shape W = [B * H, L, L] \<and>
           wf_tensor W \<and>
           (\<forall>b<B. \<forall>h<H. \<forall>i<L. \<forall>j<L.
              el W [b * H + h, i, j] =
                (\<Sum>d<D. el q [b * H + h, i, d] * el (kl ! lyr) [0, h, d, 0]) +
                el (bl ! lyr) [h, i, j] \<and>
              (\<forall>j'<L. el W [b * H + h, i, j] - el (bl ! lyr) [h, i, j] =
                       el W [b * H + h, i, j'] - el (bl ! lyr) [h, i, j']))"
proof -
  from cal_attention_scores [where shp = 3 and q = q, OF assms(1-13)] assms(14)
  obtain W where W: "cal_attention cls q lyr modality 3 = Inr W" "shape W = [B * H, L, L]"
      "wf_tensor W"
    and e: "\<And>b h i j. b < B \<Longrightarrow> h < H \<Longrightarrow> i < L \<Longrightarrow> j < L \<Longrightarrow>
        el W [b * H + h, i, j] =
          (\<Sum>d<D. el q [b * H + h, i, d] * el (kl ! lyr) [0, h, d, 0]) + el (bl ! lyr) [h, i, j]"
    by auto
  have "el W [b * H + h, i, j] - el (bl ! lyr) [h, i, j] =
        el W [b * H + h, i, j'] - el (bl ! lyr) [h, i, j']"
    if "b < B" "h < H" "i < L" "j < L" "j' < L" for b h i j j'
    using e [of b h i j] e [of b h i j'] that by simp
  with W e show ?thesis by blast
qed

theorem cal_attention_query_key_bias_witness:
  "num_heads sk_example = 2 \<and> head_dim sk_example = 2 \<and>
   bias_of sk_example ''vision'' = Some [Tensor [2, 2, 2] [10, 20, 30, 40, 50, 60, 70, 80]] \<and>
   key sk_example = Some [Tensor [1, 2, 2, 1] [1, 2, 3, 4]] \<and>
   cal_attention sk_example (Tensor [2, 2, 2] [1, 0, 0, 1, 1, 1, 2, 2]) 0 ''vision'' 3 =
     Inr (Tensor [2, 2, 2] [11, 21, 32, 42, 57, 67, 84, 94])"
proof -
  have "\<exists>W. cal_attention sk_example (Tensor [2, 2, 2] [1, 0, 0, 1, 1, 1, 2, 2]) 0 ''vision'' 3
          = Inr W \<and> shape W = [1 * 2, 2, 2] \<and> wf_tensor W \<and>
           (\<forall>b<1. \<forall>h<2. \<forall>i<2. \<forall>j<2.
              el W [b * 2 + h, i, j] =
                (\<Sum>d<2. el (Tensor [2, 2, 2] [1, 0, 0, 1, 1, 1, 2, 2]) [b * 2 + h, i, d] *
                   el ([Tensor [1, 2, 2, 1] [1, 2, 3, 4]] ! 0) [0, h, d, 0]) +
                el ([Tensor [2, 2, 2] [10, 20, 30, 40, 50, 60, 70, 80]] ! 0) [h, i, j] \<and>
              (\<forall>j'<2. el W [b * 2 + h, i, j] -
                        el ([Tensor [2, 2, 2] [10, 20, 30, 40, 50, 60, 70, 80]] ! 0) [h, i, j] =
                       el W [b * 2 + h, i, j'] -
                        el ([Tensor [2, 2, 2] [10, 20, 30, 40, 50, 60, 70, 80]] ! 0) [h, i, j']))"
    by (rule cal_attention_query_key_bias [where cls = sk_example and H = 2 and D = 2 and B = 1
          and L = 2 and modality = "''vision''"])
       (simp_all add: sk_example_def bias_of_def bn_of_def)
  moreover have "cal_attention sk_example (Tensor [2, 2, 2] [1, 0, 0, 1, 1, 1, 2, 2]) 0 ''vision'' 3 =
     Inr (Tensor [2, 2, 2] [11, 21, 32, 42, 57, 67, 84, 94])"
    by code_simp
  ultimately show ?thesis
    by (simp add: sk_example_def bias_of_def)
qed

text \<open>
  The claim as stated, for every length and batch size, fails: a query of length 3 against
  a bias of side 2 makes the addition of the bias raise, and an empty batch makes the
  \<open>view\<close> with an inferred size raise.
\<close>

theorem cal_attention_length_counterexample:
  "cal_attention sk_example (Tensor [2, 3, 2] [1, 0, 0, 1, 1, 0, 0, 1, 1, 0, 0, 1]) 0 ''text'' 3
     = Inl RuntimeError \<and>
   cal_attention sk_example (Tensor [0, 2, 2] []) 0 ''text'' 3 = Inl RuntimeError"
  by code_simp

subsection \<open>The attention regularisation loss\<close>





















subsection \<open>The attention scores of a layer\<close>

lemma bnd_eq_Inr: "bnd r f = Inr y \<longleftrightarrow> (\<exists>x. r = Inr x \<and> f x = Inr y)"
  by (cases r) simp_all

lemma bndE: "bnd r f = Inr y \<Longrightarrow> (\<And>x. r = Inr x \<Longrightarrow> f x = Inr y \<Longrightarrow> P) \<Longrightarrow> P"
  by (cases r) simp_all













lemma CLIPAttention_forward_shared:
  assumes l: "START_SHARE_LAYER \<le> lyr"
    and run: "CLIPAttention_forward self lyr hs oa w = Inr (r, w')"
  shows "\<exists>sizes qs vs src aw.
           CLIPAttention_states self hs = Inr (sizes, qs, vs, src) \<and>
           cal_attention (ShareKey w) qs lyr ''vision'' 3 = Inr aw \<and>
           CLIPAttention_output self sizes vs src oa aw = Inr r \<and>
           w' = w\<lparr>AttentionReg := (AttentionReg w)
                  \<lparr>attention_vision_list := attention_vision_list (AttentionReg w) @ [aw]\<rparr>\<rparr>"
proof -
  have nl: "\<not> lyr < START_SHARE_LAYER" using l by simp
  from run show ?thesis
    unfolding CLIPAttention_forward_def CLIPAttention_attn_weights_def
    by (auto simp: nl bnd_eq_Inr)
qed

lemma BertSelfAttention_forward_shared:
  assumes l: "START_SHARE_LAYER \<le> lyr"
    and run: "BertSelfAttention_forward self lyr hs am hm oa w = Inr (r, w')"
  shows "\<exists>vl ql aw scores entry.
           BertSelfAttention_layers self hs = Inr (vl, ql) \<and>
           cal_attention (ShareKey w) ql lyr ''text'' 4 = Inr aw \<and>
           BertSelfAttention_scores self am aw = Inr scores \<and>
           (if BertSelfAttention_MODIFY w
            then where_less scores (- 9000) (zero (AttentionReg w)) else Inr scores) = Inr entry \<and>
           BertSelfAttention_context self hm oa vl scores = Inr r \<and>
           w' = w\<lparr>AttentionReg := (AttentionReg w)
                  \<lparr>attention_text_list := attention_text_list (AttentionReg w) @ [entry]\<rparr>\<rparr>"
proof -
  have nl: "\<not> lyr < START_SHARE_LAYER" using l by simp
  show ?thesis
  proof (cases "BertSelfAttention_MODIFY w")
    case True
    with run show ?thesis
      unfolding BertSelfAttention_forward_def BertSelfAttention_raw_scores_def
        BertSelfAttention_record_def
      by (auto simp: nl l bnd_eq_Inr)
  next
    case False
    with run show ?thesis
      unfolding BertSelfAttention_forward_def BertSelfAttention_raw_scores_def
        BertSelfAttention_record_def
      by (auto simp: nl l bnd_eq_Inr)
  qed
qed

text \<open>
  C1: in a layer \<open>l \<ge> START_SHARE_LAYER\<close> the scores of \<open>CLIPAttention.forward\<close> are
  \<open>ShareKey.cal_attention(query_states, l, 'vision', 3)\<close> and those of
  \<open>BertSelfAttention.forward\<close> are \<open>ShareKey.cal_attention(query_layer, l, 'text', 4)\<close>, on the
  same state of \<open>ShareKey\<close>; a call of \<open>forward\<close> that returns has computed them so. With the
  shapes that \<open>ShareKey.init\<close> gives the parameters, both are the product of the query with the
  same \<open>key[l]\<close>, plus \<open>vision_bias[l]\<close> for vision and \<open>text_bias[l]\<close> for text.
\<close>

theorem shared_layers_use_cal_attention:
  assumes "START_SHARE_LAYER \<le> lyr"
  shows
    "CLIPAttention_attn_weights vself lyr hs q bsz w =
       bnd (cal_attention (ShareKey w) q lyr ''vision'' 3) (\<lambda>attn_weights.
         Inr (attn_weights,
              w\<lparr>AttentionReg := (AttentionReg w)
                   \<lparr>attention_vision_list :=
                      attention_vision_list (AttentionReg w) @ [attn_weights]\<rparr>\<rparr>)) \<and>
     BertSelfAttention_raw_scores tself lyr hs' q' w =
       cal_attention (ShareKey w) q' lyr ''text'' 4 \<and>
     (\<forall>r w'. CLIPAttention_forward vself lyr hs oa w = Inr (r, w') \<longrightarrow>
        (\<exists>sizes qs vs src aw.
           CLIPAttention_states vself hs = Inr (sizes, qs, vs, src) \<and>
           cal_attention (ShareKey w) qs lyr ''vision'' 3 = Inr aw \<and>
           CLIPAttention_output vself sizes vs src oa aw = Inr r)) \<and>
     (\<forall>r w'. BertSelfAttention_forward tself lyr hs' am hm oa' w = Inr (r, w') \<longrightarrow>
        (\<exists>vl ql aw scores.
           BertSelfAttention_layers tself hs' = Inr (vl, ql) \<and>
           cal_attention (ShareKey w) ql lyr ''text'' 4 = Inr aw \<and>
           BertSelfAttention_scores tself am aw = Inr scores \<and>
           BertSelfAttention_context tself hm oa' vl scores = Inr r)) \<and>
     (\<forall>H D B Lv B' Lt kl vb tb.
        num_heads (ShareKey w) = H \<and> 0 < H \<and> head_dim (ShareKey w) = D \<and> 0 < D \<and>
        key (ShareKey w) = Some kl \<and> lyr < length kl \<and> shape (kl ! lyr) = [1, H, D, 1] \<and>
        vision_bias (ShareKey w) = Some vb \<and> lyr < length vb \<and>
        shape (vb ! lyr) = [H, Lv, Lv] \<and> lyr < length (vision_bn (ShareKey w)) \<and>
        text_bias (ShareKey w) = Some tb \<and> lyr < length tb \<and>
        shape (tb ! lyr) = [H, Lt, Lt] \<and> lyr < length (text_bn (ShareKey w)) \<and>
        0 < B \<and> shape q = [B * H, Lv, D] \<and> 0 < B' \<and> shape q' = [B', H, Lt, D] \<longrightarrow>
        (\<exists>Wv Wt.
           cal_attention (ShareKey w) q lyr ''vision'' 3 = Inr Wv \<and>
           cal_attention (ShareKey w) q' lyr ''text'' 4 = Inr Wt \<and>
           (\<forall>b<B. \<forall>h<H. \<forall>i<Lv. \<forall>j<Lv.
              el Wv [b * H + h, i, j] =
                (\<Sum>d<D. el q [b * H + h, i, d] * el (kl ! lyr) [0, h, d, 0]) +
                el (vb ! lyr) [h, i, j]) \<and>
           (\<forall>b<B'. \<forall>h<H. \<forall>i<Lt. \<forall>j<Lt.
              el Wt [b, h, i, j] =
                (\<Sum>d<D. el q' [b, h, i, d] * el (kl ! lyr) [0, h, d, 0]) +
                el (tb ! lyr) [h, i, j])))"
proof -
  note l = assms
  have nl: "\<not> lyr < START_SHARE_LAYER" using l by simp
  have a: "CLIPAttention_attn_weights vself lyr hs q bsz w =
       bnd (cal_attention (ShareKey w) q lyr ''vision'' 3) (\<lambda>attn_weights.
         Inr (attn_weights,
              w\<lparr>AttentionReg := (AttentionReg w)
                   \<lparr>attention_vision_list :=
                      attention_vision_list (AttentionReg w) @ [attn_weights]\<rparr>\<rparr>))"
    by (simp add: CLIPAttention_attn_weights_def nl)
  have b: "BertSelfAttention_raw_scores tself lyr hs' q' w =
       cal_attention (ShareKey w) q' lyr ''text'' 4"
    by (simp add: BertSelfAttention_raw_scores_def nl)
  have c: "\<forall>r w'. CLIPAttention_forward vself lyr hs oa w = Inr (r, w') \<longrightarrow>
        (\<exists>sizes qs vs src aw.
           CLIPAttention_states vself hs = Inr (sizes, qs, vs, src) \<and>
           cal_attention (ShareKey w) qs lyr ''vision'' 3 = Inr aw \<and>
           CLIPAttention_output vself sizes vs src oa aw = Inr r)"
    using CLIPAttention_forward_shared [OF l] by blast
  have d: "\<forall>r w'. BertSelfAttention_forward tself lyr hs' am hm oa' w = Inr (r, w') \<longrightarrow>
        (\<exists>vl ql aw scores.
           BertSelfAttention_layers tself hs' = Inr (vl, ql) \<and>
           cal_attention (ShareKey w) ql lyr ''text'' 4 = Inr aw \<and>
           BertSelfAttention_scores tself am aw = Inr scores \<and>
           BertSelfAttention_context tself hm oa' vl scores = Inr r)"
    using BertSelfAttention_forward_shared [OF l] by blast
  have e: "\<exists>Wv Wt.
           cal_attention (ShareKey w) q lyr ''vision'' 3 = Inr Wv \<and>
           cal_attention (ShareKey w) q' lyr ''text'' 4 = Inr Wt \<and>
           (\<forall>b<B. \<forall>h<H. \<forall>i<Lv. \<forall>j<Lv.
              el Wv [b * H + h, i, j] =
                (\<Sum>d<D. el q [b * H + h, i, d] * el (kl ! lyr) [0, h, d, 0]) +
                el (vb ! lyr) [h, i, j]) \<and>
           (\<forall>b<B'. \<forall>h<H. \<forall>i<Lt. \<forall>j<Lt.
              el Wt [b, h, i, j] =
                (\<Sum>d<D. el q' [b, h, i, d] * el (kl ! lyr) [0, h, d, 0]) +
                el (tb ! lyr) [h, i, j])"
    if h: "num_heads (ShareKey w) = H" "0 < H" "head_dim (ShareKey w) = D" "0 < D"
      and k: "key (ShareKey w) = Some kl" "lyr < length kl" "shape (kl ! lyr) = [1, H, D, 1]"
      and v: "vision_bias (ShareKey w) = Some vb" "lyr < length vb"
        "shape (vb ! lyr) = [H, Lv, Lv]" "lyr < length (vision_bn (ShareKey w))"
      and t: "text_bias (ShareKey w) = Some tb" "lyr < length tb"
        "shape (tb ! lyr) = [H, Lt, Lt]" "lyr < length (text_bn (ShareKey w))"
      and qv: "0 < B" "shape q = [B * H, Lv, D]" and qt: "0 < B'" "shape q' = [B', H, Lt, D]"
    for H D B Lv B' Lt kl vb tb
  proof -
    have "\<exists>W. cal_attention (ShareKey w) q lyr ''vision'' 3 = Inr W \<and>
           shape W = (if (3::int) = 3 then [B * H, Lv, Lv] else [B, H, Lv, Lv]) \<and> wf_tensor W \<and>
           (\<forall>b<B. \<forall>h<H. \<forall>i<Lv. \<forall>j<Lv.
              el W (if (3::int) = 3 then [b * H + h, i, j] else [b, h, i, j]) =
                (\<Sum>d<D. el q (if (3::int) = 3 then [b * H + h, i, d] else [b, h, i, d]) *
                          el (kl ! lyr) [0, h, d, 0]) +
                el (vb ! lyr) [h, i, j])"
      by (rule cal_attention_scores [where modality = "''vision''"])
         (use h k v qv in \<open>simp_all add: bias_of_def bn_of_def\<close>)
    then obtain Wv where Wv: "cal_attention (ShareKey w) q lyr ''vision'' 3 = Inr Wv"
      "\<forall>b<B. \<forall>h<H. \<forall>i<Lv. \<forall>j<Lv.
              el Wv [b * H + h, i, j] =
                (\<Sum>d<D. el q [b * H + h, i, d] * el (kl ! lyr) [0, h, d, 0]) +
                el (vb ! lyr) [h, i, j]"
      by (simp only: if_True simp_thms refl) (elim exE conjE)
    have "\<exists>W. cal_attention (ShareKey w) q' lyr ''text'' 4 = Inr W \<and>
           shape W = (if (4::int) = 3 then [B' * H, Lt, Lt] else [B', H, Lt, Lt]) \<and> wf_tensor W \<and>
           (\<forall>b<B'. \<forall>h<H. \<forall>i<Lt. \<forall>j<Lt.
              el W (if (4::int) = 3 then [b * H + h, i, j] else [b, h, i, j]) =
                (\<Sum>d<D. el q' (if (4::int) = 3 then [b * H + h, i, d] else [b, h, i, d]) *
                          el (kl ! lyr) [0, h, d, 0]) +
                el (tb ! lyr) [h, i, j])"
      by (rule cal_attention_scores [where modality = "''text''"])
         (use h k t qt in \<open>simp_all add: bias_of_def bn_of_def\<close>)
    then obtain Wt where Wt: "cal_attention (ShareKey w) q' lyr ''text'' 4 = Inr Wt"
      "\<forall>b<B'. \<forall>h<H. \<forall>i<Lt. \<forall>j<Lt.
              el Wt [b, h, i, j] =
                (\<Sum>d<D. el q' [b, h, i, d] * el (kl ! lyr) [0, h, d, 0]) +
                el (tb ! lyr) [h, i, j]"
      by simp (elim exE conjE)
    show ?thesis by (intro exI conjI) (rule Wv Wt)+
  qed
  have f: "\<forall>H D B Lv B' Lt kl vb tb.
        num_heads (ShareKey w) = H \<and> 0 < H \<and> head_dim (ShareKey w) = D \<and> 0 < D \<and>
        key (ShareKey w) = Some kl \<and> lyr < length kl \<and> shape (kl ! lyr) = [1, H, D, 1] \<and>
        vision_bias (ShareKey w) = Some vb \<and> lyr < length vb \<and>
        shape (vb ! lyr) = [H, Lv, Lv] \<and> lyr < length (vision_bn (ShareKey w)) \<and>
        text_bias (ShareKey w) = Some tb \<and> lyr < length tb \<and>
        shape (tb ! lyr) = [H, Lt, Lt] \<and> lyr < length (text_bn (ShareKey w)) \<and>
        0 < B \<and> shape q = [B * H, Lv, D] \<and> 0 < B' \<and> shape q' = [B', H, Lt, D] \<longrightarrow>
        (\<exists>Wv Wt.
           cal_attention (ShareKey w) q lyr ''vision'' 3 = Inr Wv \<and>
           cal_attention (ShareKey w) q' lyr ''text'' 4 = Inr Wt \<and>
           (\<forall>b<B. \<forall>h<H. \<forall>i<Lv. \<forall>j<Lv.
              el Wv [b * H + h, i, j] =
                (\<Sum>d<D. el q [b * H + h, i, d] * el (kl ! lyr) [0, h, d, 0]) +
                el (vb ! lyr) [h, i, j]) \<and>
           (\<forall>b<B'. \<forall>h<H. \<forall>i<Lt. \<forall>j<Lt.
              el Wt [b, h, i, j] =
                (\<Sum>d<D. el q' [b, h, i, d] * el (kl ! lyr) [0, h, d, 0]) +
                el (tb ! lyr) [h, i, j]))"
    by (intro allI impI, elim conjE, rule e)
  from a b c d f show ?thesis by (intro conjI)
qed

theorem shared_layers_use_cal_attention_witness:
  "START_SHARE_LAYER \<le> 9 \<and>
   CLIPAttention_forward clip_attention_example 9 (Tensor [1, 2, 2] [1, 2, 3, 4]) False
     world_example =
     Inr ((Tensor [1, 2, 2] [5, 28, 15, 56], None),
          world_example\<lparr>AttentionReg := (AttentionReg world_example)
             \<lparr>attention_vision_list := [Tensor [2, 2, 2] [2, 1, 3, 4, 6, 4, 8, 10]]\<rparr>\<rparr>) \<and>
   (\<exists>sizes qs vs src aw.
      CLIPAttention_states clip_attention_example (Tensor [1, 2, 2] [1, 2, 3, 4]) =
        Inr (sizes, qs, vs, src) \<and>
      cal_attention (ShareKey world_example) qs 9 ''vision'' 3 = Inr aw \<and>
      CLIPAttention_output clip_attention_example sizes vs src False aw =
        Inr (Tensor [1, 2, 2] [5, 28, 15, 56], None)) \<and>
   BertSelfAttention_forward bert_attention_example 9 (Tensor [1, 2, 2] [1, 2, 3, 4])
     (Some (Tensor [1, 1, 1, 2] [0, - 10000])) None False world_example =
     Inr ((Tensor [1, 2, 2] [- 29993, - 39964, - 29987, - 39946], None),
          world_example\<lparr>AttentionReg := (AttentionReg world_example)
             \<lparr>attention_text_list :=
                [Tensor [1, 2, 2, 2] [1, - 9998, 4, - 9997, 4, - 9993, 11, - 9992]]\<rparr>\<rparr>) \<and>
   (\<exists>vl ql aw scores.
      BertSelfAttention_layers bert_attention_example (Tensor [1, 2, 2] [1, 2, 3, 4]) =
        Inr (vl, ql) \<and>
      cal_attention (ShareKey world_example) ql 9 ''text'' 4 = Inr aw \<and>
      BertSelfAttention_scores bert_attention_example (Some (Tensor [1, 1, 1, 2] [0, - 10000])) aw
        = Inr scores \<and>
      BertSelfAttention_context bert_attention_example None False vl scores =
        Inr (Tensor [1, 2, 2] [- 29993, - 39964, - 29987, - 39946], None))"
proof -
  have l: "START_SHARE_LAYER \<le> 9" by (simp add: START_SHARE_LAYER_def)
  have v: "CLIPAttention_forward clip_attention_example 9 (Tensor [1, 2, 2] [1, 2, 3, 4]) False
     world_example =
     Inr ((Tensor [1, 2, 2] [5, 28, 15, 56], None),
          world_example\<lparr>AttentionReg := (AttentionReg world_example)
             \<lparr>attention_vision_list := [Tensor [2, 2, 2] [2, 1, 3, 4, 6, 4, 8, 10]]\<rparr>\<rparr>)"
    by code_simp
  have t: "BertSelfAttention_forward bert_attention_example 9 (Tensor [1, 2, 2] [1, 2, 3, 4])
     (Some (Tensor [1, 1, 1, 2] [0, - 10000])) None False world_example =
     Inr ((Tensor [1, 2, 2] [- 29993, - 39964, - 29987, - 39946], None),
          world_example\<lparr>AttentionReg := (AttentionReg world_example)
             \<lparr>attention_text_list :=
                [Tensor [1, 2, 2, 2] [1, - 9998, 4, - 9997, 4, - 9993, 11, - 9992]]\<rparr>\<rparr>)"
    by code_simp
  note inst = shared_layers_use_cal_attention [OF l, where vself = clip_attention_example
      and tself = bert_attention_example and w = world_example
      and hs = "Tensor [1, 2, 2] [1, 2, 3, 4]" and hs' = "Tensor [1, 2, 2] [1, 2, 3, 4]"
      and oa = False and oa' = False and am = "Some (Tensor [1, 1, 1, 2] [0, - 10000])"
      and hm = None]
  have ev: "\<exists>sizes qs vs src aw.
      CLIPAttention_states clip_attention_example (Tensor [1, 2, 2] [1, 2, 3, 4]) =
        Inr (sizes, qs, vs, src) \<and>
      cal_attention (ShareKey world_example) qs 9 ''vision'' 3 = Inr aw \<and>
      CLIPAttention_output clip_attention_example sizes vs src False aw =
        Inr (Tensor [1, 2, 2] [5, 28, 15, 56], None)"
    by (rule inst [THEN conjunct2, THEN conjunct2, THEN conjunct1, rule_format, OF v])
  have et: "\<exists>vl ql aw scores.
      BertSelfAttention_layers bert_attention_example (Tensor [1, 2, 2] [1, 2, 3, 4]) =
        Inr (vl, ql) \<and>
      cal_attention (ShareKey world_example) ql 9 ''text'' 4 = Inr aw \<and>
      BertSelfAttention_scores bert_attention_example (Some (Tensor [1, 1, 1, 2] [0, - 10000])) aw
        = Inr scores \<and>
      BertSelfAttention_context bert_attention_example None False vl scores =
        Inr (Tensor [1, 2, 2] [- 29993, - 39964, - 29987, - 39946], None)"
    by (rule inst [THEN conjunct2, THEN conjunct2, THEN conjunct2, THEN conjunct1,
          rule_format, OF t])
  from l v ev t et show ?thesis by (intro conjI)
qed

subsection \<open>The encoder loop\<close>

lemma append_attention_Nil [simp]: "append_attention [] [] w = w"
  by (simp add: append_attention_def)

lemma append_attention_append [simp]:
  "append_attention vs2 ts2 (append_attention vs1 ts1 w) =
   append_attention (vs1 @ vs2) (ts1 @ ts2) w"
  by (simp add: append_attention_def)

lemma append_attention_frame [simp]:
  "ShareKey (append_attention vs ts w) = ShareKey w"
  "BertSelfAttention_MODIFY (append_attention vs ts w) = BertSelfAttention_MODIFY w"
  "BertEmbeddings_embedding (append_attention vs ts w) = BertEmbeddings_embedding w"
  "zero (AttentionReg (append_attention vs ts w)) = zero (AttentionReg w)"
  "old_model (AttentionReg (append_attention vs ts w)) = old_model (AttentionReg w)"
  "old_key (AttentionReg (append_attention vs ts w)) = old_key (AttentionReg w)"
  "old_text_bias (AttentionReg (append_attention vs ts w)) = old_text_bias (AttentionReg w)"
  "old_vision_bias (AttentionReg (append_attention vs ts w)) = old_vision_bias (AttentionReg w)"
  "attention_vision_list (AttentionReg (append_attention vs ts w)) =
     attention_vision_list (AttentionReg w) @ vs"
  "attention_text_list (AttentionReg (append_attention vs ts w)) =
     attention_text_list (AttentionReg w) @ ts"
  by (simp_all add: append_attention_def)

lemma vision_entry_frame [simp]:
  "vision_entry (append_attention vs ts w) = vision_entry w"
  by (intro ext) (simp add: vision_entry_def)

lemma text_entry_frame [simp]:
  "text_entry self am (append_attention vs ts w) = text_entry self am w"
  by (intro ext) (simp add: text_entry_def)















subsection \<open>The order of the layers\<close>

lemma UnimoEncoder_iteration_alternating:
  "map_sum id encoder_state (UnimoEncoder_iteration self am hm oa ohs idx l w) =
     bnd (py_getitem (vision_layers self) idx) (\<lambda>vision_layer_module.
     bnd (CLIPEncoderLayer_forward vision_layer_module idx (vision_hidden_states l) oa w)
       (\<lambda>(vision_layer_output, w1).
     bnd (case hm of None \<Rightarrow> Inr None | Some h \<Rightarrow> py_getitem h idx) (\<lambda>layer_head_mask.
     bnd (py_getitem (text_layer self) idx) (\<lambda>text_layer_module.
     bnd (BertLayer_forward text_layer_module idx (text_hidden_states l) am layer_head_mask
            oa w1) (\<lambda>(text_layer_output, w2).
     Inr (fst vision_layer_output, fst text_layer_output, w2))))))"
proof (cases "py_getitem (vision_layers self) idx")
  case (Inl e)
  then show ?thesis by (simp add: UnimoEncoder_iteration_def Let_def)
next
  case vl: (Inr vl)
  have v: "vision_hidden_states (if ohs then l\<lparr>all_vision_hidden_states := a,
             all_text_hidden_states := b\<rparr> else l) = vision_hidden_states l" for a b
    by simp
  have t: "text_hidden_states (if ohs then l\<lparr>all_vision_hidden_states := a,
             all_text_hidden_states := b\<rparr> else l) = text_hidden_states l" for a b
    by simp
  show ?thesis
  proof (cases "CLIPEncoderLayer_forward vl idx (vision_hidden_states l) oa w")
    case (Inl e)
    then show ?thesis using vl by (simp add: UnimoEncoder_iteration_def Let_def v)
  next
    case (Inr r)
    obtain vo w1 where r: "r = (vo, w1)" by (cases r)
    note cv = Inr [unfolded r]
    show ?thesis
    proof (cases "case hm of None \<Rightarrow> Inr None | Some h \<Rightarrow> py_getitem h idx")
      case (Inl e)
      then show ?thesis using vl cv by (simp add: UnimoEncoder_iteration_def Let_def v)
    next
      case lh: (Inr lhm)
      show ?thesis
      proof (cases "py_getitem (text_layer self) idx")
        case (Inl e)
        then show ?thesis using vl cv lh by (simp add: UnimoEncoder_iteration_def Let_def v)
      next
        case tl: (Inr tl)
        show ?thesis
        proof (cases "BertLayer_forward tl idx (text_hidden_states l) am lhm oa w1")
          case (Inl e)
          then show ?thesis using vl cv lh tl
            by (simp add: UnimoEncoder_iteration_def Let_def v t)
        next
          case (Inr q)
          obtain to' w2 where q: "q = (to', w2)" by (cases q)
          show ?thesis using vl cv lh tl Inr [unfolded q]
            by (simp add: UnimoEncoder_iteration_def Let_def v t encoder_state_def)
        qed
      qed
    qed
  qed
qed

lemma UnimoEncoder_loop_alternating:
  "map_sum id encoder_state (UnimoEncoder_loop self am hm oa ohs idxs l w) =
     alternating_streams self am hm oa idxs (vision_hidden_states l, text_hidden_states l, w)"
proof (induction idxs arbitrary: l w)
  case Nil
  show ?case by (simp add: encoder_state_def)
next
  case (Cons idx rest)
  show ?case
  proof (cases "UnimoEncoder_iteration self am hm oa ohs idx l w")
    case (Inl e)
    with UnimoEncoder_iteration_alternating [of self am hm oa ohs idx l w]
    have "bnd (py_getitem (vision_layers self) idx) (\<lambda>vision_layer_module.
     bnd (CLIPEncoderLayer_forward vision_layer_module idx (vision_hidden_states l) oa w)
       (\<lambda>(vision_layer_output, w1).
     bnd (case hm of None \<Rightarrow> Inr None | Some h \<Rightarrow> py_getitem h idx) (\<lambda>layer_head_mask.
     bnd (py_getitem (text_layer self) idx) (\<lambda>text_layer_module.
     bnd (BertLayer_forward text_layer_module idx (text_hidden_states l) am layer_head_mask
            oa w1) (\<lambda>(text_layer_output, w2).
     Inr (fst vision_layer_output, fst text_layer_output, w2 :: 'a world)))))) = Inl e"
      by simp
    then have "alternating_streams self am hm oa (idx # rest)
        (vision_hidden_states l, text_hidden_states l, w) = Inl e"
      by (auto simp: bnd_def split: sum.splits prod.splits)
    then show ?thesis using Inl by simp
  next
    case (Inr r)
    obtain l1 w1 where r: "r = (l1, w1)" by (cases r)
    note it = Inr [unfolded r]
    with UnimoEncoder_iteration_alternating [of self am hm oa ohs idx l w]
    have "bnd (py_getitem (vision_layers self) idx) (\<lambda>vision_layer_module.
     bnd (CLIPEncoderLayer_forward vision_layer_module idx (vision_hidden_states l) oa w)
       (\<lambda>(vision_layer_output, w1).
     bnd (case hm of None \<Rightarrow> Inr None | Some h \<Rightarrow> py_getitem h idx) (\<lambda>layer_head_mask.
     bnd (py_getitem (text_layer self) idx) (\<lambda>text_layer_module.
     bnd (BertLayer_forward text_layer_module idx (text_hidden_states l) am layer_head_mask
            oa w1) (\<lambda>(text_layer_output, w2).
     Inr (fst vision_layer_output, fst text_layer_output, w2 :: 'a world)))))) =
       Inr (vision_hidden_states l1, text_hidden_states l1, w1)"
      by (simp add: encoder_state_def)
    then have "alternating_streams self am hm oa (idx # rest)
        (vision_hidden_states l, text_hidden_states l, w) =
      alternating_streams self am hm oa rest (vision_hidden_states l1, text_hidden_states l1, w1)"
      by (auto simp: bnd_def split: sum.splits prod.splits)
    then show ?thesis using it Cons.IH [of l1 w1] by simp
  qed
qed

text \<open>
  C4: \<open>UnimoEncoder.forward\<close> raises \<open>AssertionError\<close> when the two configurations differ in
  \<open>num_hidden_layers\<close>. Otherwise the pass is the strict alternation of the two streams
  over the indices \<open>0, ..., num_hidden_layers - 1\<close>: vision layer \<open>idx\<close> on the vision hidden
  states first, then text layer \<open>idx\<close> on the text hidden states, each stream's output
  feeding the same stream's next layer. If a step of the alternation raises, the pass
  raises that exception (the one of the first failing step in this order); if the
  alternation ends with the hidden states \<open>v\<close> and \<open>t\<close> in the state \<open>w'\<close>, the pass returns
  a tuple that starts with \<open>t\<close> and \<open>v\<close>, in the state \<open>w'\<close> (or stops at \<open>assert False\<close>
  with \<open>return_dict\<close>).
\<close>

theorem UnimoEncoder_forward_strict_alternation:
  "(vision_num_hidden_layers self \<noteq> text_num_hidden_layers self \<longrightarrow>
      UnimoEncoder_forward self ve te am hm oa ohs rd w = Inl AssertionError) \<and>
   (vision_num_hidden_layers self = text_num_hidden_layers self \<longrightarrow>
      (case alternating_streams self am hm oa [0..<vision_num_hidden_layers self] (ve, te, w) of
         Inl e \<Rightarrow> UnimoEncoder_forward self ve te am hm oa ohs rd w = Inl e
       | Inr (v, t, w') \<Rightarrow>
           if rd then UnimoEncoder_forward self ve te am hm oa ohs rd w = Inl AssertionError
           else \<exists>extra. UnimoEncoder_forward self ve te am hm oa ohs rd w =
                  Inr (PyTensor t # PyTensor v # extra, w')))"
proof (intro conjI impI)
  assume "vision_num_hidden_layers self \<noteq> text_num_hidden_layers self"
  then show "UnimoEncoder_forward self ve te am hm oa ohs rd w = Inl AssertionError"
    by (simp add: UnimoEncoder_forward_def py_assert_def)
next
  assume n: "vision_num_hidden_layers self = text_num_hidden_layers self"
  let ?l0 = "\<lparr>vision_hidden_states = ve, text_hidden_states = te,
         all_vision_hidden_states = (if ohs then Some [] else None),
         all_text_hidden_states = (if ohs then Some [] else None),
         all_vision_attentions = (if oa then Some [] else None),
         all_text_attentions = (if oa then Some [] else None)\<rparr>"
  let ?loop = "UnimoEncoder_loop self am hm oa ohs [0..<vision_num_hidden_layers self] ?l0 w"
  have alt: "map_sum id encoder_state ?loop =
      alternating_streams self am hm oa [0..<vision_num_hidden_layers self] (ve, te, w)"
    using UnimoEncoder_loop_alternating [of self am hm oa ohs _ ?l0 w] by simp
  show "case alternating_streams self am hm oa [0..<vision_num_hidden_layers self] (ve, te, w) of
         Inl e \<Rightarrow> UnimoEncoder_forward self ve te am hm oa ohs rd w = Inl e
       | Inr (v, t, w') \<Rightarrow>
           if rd then UnimoEncoder_forward self ve te am hm oa ohs rd w = Inl AssertionError
           else \<exists>extra. UnimoEncoder_forward self ve te am hm oa ohs rd w =
                  Inr (PyTensor t # PyTensor v # extra, w')"
  proof (cases ?loop)
    case (Inl e)
    then have "UnimoEncoder_forward self ve te am hm oa ohs rd w = Inl e"
      by (simp add: UnimoEncoder_forward_def py_assert_def n Let_def)
    then show ?thesis using alt [symmetric] Inl by simp
  next
    case (Inr r)
    obtain l1 w1 where r: "r = (l1, w1)" by (cases r)
    note lp = Inr [unfolded r]
    have a: "alternating_streams self am hm oa [0..<vision_num_hidden_layers self] (ve, te, w) =
        Inr (vision_hidden_states l1, text_hidden_states l1, w1)"
      using alt [symmetric] lp by (simp add: encoder_state_def)
    have "UnimoEncoder_forward self ve te am hm oa ohs rd w = Inl AssertionError" if rd
      using that lp by (simp add: UnimoEncoder_forward_def py_assert_def n Let_def)
    moreover have "\<exists>extra. UnimoEncoder_forward self ve te am hm oa ohs rd w =
        Inr (PyTensor (text_hidden_states l1) # PyTensor (vision_hidden_states l1) # extra, w1)"
      if "\<not> rd"
      using that lp by (cases ohs) (simp_all add: UnimoEncoder_forward_def py_assert_def n Let_def)
    ultimately show ?thesis by (simp add: a)
  qed
qed

lemma encoder_raising_example_run:
  "alternating_streams encoder_raising_example (Some (Tensor [1, 1, 1, 2] [0, - 10000])) None
     False [0..<vision_num_hidden_layers encoder_raising_example]
     (Tensor [1, 2, 2] [1, 2, 3, 4], Tensor [1, 2, 2] [1, 0, 0, 1], world_example) =
   Inl TypeError"
  by code_simp

lemma encoder_raising_example_layers:
  "BertLayer_forward (text_layer encoder_raising_example ! 0) 0 (Tensor [1, 2, 2] [1, 0, 0, 1])
     (Some (Tensor [1, 1, 1, 2] [0, - 10000])) None False world_example = Inl TypeError"
  "CLIPEncoderLayer_forward (vision_layers encoder_raising_example ! 1) 1
     (Tensor [1, 2, 2] [1, 2, 3, 4]) False world_example = Inl ValueError"
  by code_simp+

lemma encoder_example_alternating_run:
  "alternating_streams (encoder_example 12) (Some (Tensor [1, 1, 1, 2] [0, - 10000])) None
     False [0..<vision_num_hidden_layers (encoder_example 12)]
     (Tensor [1, 2, 2] [1, 2, 3, 4], Tensor [1, 2, 2] [1, 0, 0, 1], world_example) =
   Inr (Tensor [1, 2, 2] [1, 2, 3, 4], Tensor [1, 2, 2] [1, 0, 0, 1],
        world_example\<lparr>AttentionReg := (AttentionReg world_example)
          \<lparr>attention_vision_list := replicate 3 (Tensor [2, 2, 2] [2, 1, 3, 4, 6, 4, 8, 10]),
           attention_text_list :=
             replicate 3 (Tensor [1, 2, 2, 2] [1, - 9998, 1, - 10000, 0, - 9997, 5, - 9998])\<rparr>\<rparr>)"
  by code_simp

theorem UnimoEncoder_forward_strict_alternation_witness:
  "BertLayer_forward (text_layer encoder_raising_example ! 0) 0 (Tensor [1, 2, 2] [1, 0, 0, 1])
     (Some (Tensor [1, 1, 1, 2] [0, - 10000])) None False world_example = Inl TypeError \<and>
   CLIPEncoderLayer_forward (vision_layers encoder_raising_example ! 1) 1
     (Tensor [1, 2, 2] [1, 2, 3, 4]) False world_example = Inl ValueError \<and>
   UnimoEncoder_forward encoder_raising_example (Tensor [1, 2, 2] [1, 2, 3, 4])
     (Tensor [1, 2, 2] [1, 0, 0, 1]) (Some (Tensor [1, 1, 1, 2] [0, - 10000])) None
     False False False world_example = Inl TypeError \<and>
   UnimoEncoder_forward (encoder_raising_example\<lparr>text_num_hidden_layers := 3\<rparr>)
     (Tensor [1, 2, 2] [1, 2, 3, 4])
     (Tensor [1, 2, 2] [1, 0, 0, 1]) (Some (Tensor [1, 1, 1, 2] [0, - 10000])) None
     False False False world_example = Inl AssertionError \<and>
   (\<exists>extra. UnimoEncoder_forward (encoder_example 12) (Tensor [1, 2, 2] [1, 2, 3, 4])
     (Tensor [1, 2, 2] [1, 0, 0, 1]) (Some (Tensor [1, 1, 1, 2] [0, - 10000])) None
     False False False world_example =
     Inr (PyTensor (Tensor [1, 2, 2] [1, 0, 0, 1]) # PyTensor (Tensor [1, 2, 2] [1, 2, 3, 4]) # extra,
        world_example\<lparr>AttentionReg := (AttentionReg world_example)
          \<lparr>attention_vision_list := replicate 3 (Tensor [2, 2, 2] [2, 1, 3, 4, 6, 4, 8, 10]),
           attention_text_list :=
             replicate 3 (Tensor [1, 2, 2, 2] [1, - 9998, 1, - 10000, 0, - 9997, 5, - 9998])\<rparr>\<rparr>))"
proof -
  let ?ve = "Tensor [1, 2, 2] [1, 2, 3, 4]"
  let ?te = "Tensor [1, 2, 2] [1, 0, 0, 1]"
  let ?am = "Some (Tensor [1, 1, 1, 2] [0, - 10000])"
  have n: "vision_num_hidden_layers encoder_raising_example = 2"
    "text_num_hidden_layers encoder_raising_example = 2"
    "vision_num_hidden_layers (encoder_example 12) = 12"
    "text_num_hidden_layers (encoder_example 12) = 12"
    by (simp_all add: encoder_raising_example_def encoder_example_def)
  have eq: "vision_num_hidden_layers encoder_raising_example =
      text_num_hidden_layers encoder_raising_example"
    "vision_num_hidden_layers (encoder_example 12) = text_num_hidden_layers (encoder_example 12)"
    "vision_num_hidden_layers (encoder_raising_example\<lparr>text_num_hidden_layers := 3\<rparr>) \<noteq>
      text_num_hidden_layers (encoder_raising_example\<lparr>text_num_hidden_layers := 3\<rparr>)"
    by (simp_all add: n)
  have a: "UnimoEncoder_forward encoder_raising_example ?ve ?te ?am None
     False False False world_example = Inl TypeError"
    using UnimoEncoder_forward_strict_alternation [of encoder_raising_example ?ve ?te ?am None
        False False False world_example, THEN conjunct2, rule_format, OF eq(1)]
    unfolding encoder_raising_example_run sum.case .
  have b: "UnimoEncoder_forward (encoder_raising_example\<lparr>text_num_hidden_layers := 3\<rparr>)
     ?ve ?te ?am None False False False world_example = Inl AssertionError"
    using UnimoEncoder_forward_strict_alternation
      [of "encoder_raising_example\<lparr>text_num_hidden_layers := 3\<rparr>" ?ve ?te ?am None
        False False False world_example, THEN conjunct1, rule_format, OF eq(3)] .
  have c: "\<exists>extra. UnimoEncoder_forward (encoder_example 12) ?ve ?te ?am None
     False False False world_example =
     Inr (PyTensor ?te # PyTensor ?ve # extra,
        world_example\<lparr>AttentionReg := (AttentionReg world_example)
          \<lparr>attention_vision_list := replicate 3 (Tensor [2, 2, 2] [2, 1, 3, 4, 6, 4, 8, 10]),
           attention_text_list :=
             replicate 3 (Tensor [1, 2, 2, 2] [1, - 9998, 1, - 10000, 0, - 9997, 5, - 9998])\<rparr>\<rparr>)"
    using UnimoEncoder_forward_strict_alternation [of "encoder_example 12" ?ve ?te ?am None
        False False False world_example, THEN conjunct2, rule_format, OF eq(2)]
    unfolding encoder_example_alternating_run sum.case prod.case if_False .
  show ?thesis using a b c encoder_raising_example_layers by blast
qed

subsection \<open>The result of the model\<close>

lemma UnimoModel_forward_cat:
  "UnimoModel_forward self input_ids attention_mask0 token_type_ids position_ids head_mask0
       pixel_values aux_values rcnn_values output_attentions output_hidden_states return_dict w =
     bnd (vision_embeddings self pixel_values aux_values rcnn_values) (\<lambda>ve0.
     bnd (vision_pre_layrnorm self ve0) (\<lambda>vision_embedding_output.
     bnd (if dim input_ids = 2 then Inr () else Inl ValueError) (\<lambda>_.
     bnd (case token_type_ids of None \<Rightarrow> Inl ValueError | Some tt \<Rightarrow> Inr tt) (\<lambda>tt.
     bnd (get_extended_attention_mask
            (case attention_mask0 of
               None \<Rightarrow> ones [shape input_ids ! 0, shape input_ids ! 1]
             | Some am \<Rightarrow> am) (shape input_ids) ''cuda'') (\<lambda>extended_attention_mask.
     bnd (BertEmbeddings_forward (text_embeddings self) input_ids tt position_ids w)
       (\<lambda>(text_embedding_output, w1).
     bnd (UnimoEncoder_forward (encoder self) vision_embedding_output text_embedding_output
            (Some extended_attention_mask) None output_attentions output_hidden_states False w1)
       (\<lambda>(encoder_outputs, w2).
     bnd (bnd (py_getitem encoder_outputs 0)
            (\<lambda>v. case v of PyTensor t \<Rightarrow> Inr t | _ \<Rightarrow> Inl TypeError)) (\<lambda>text_output.
     bnd (bnd (py_getitem encoder_outputs 1)
            (\<lambda>v. case v of PyTensor t \<Rightarrow> Inr t | _ \<Rightarrow> Inl TypeError)) (\<lambda>vision_output.
     bnd (fusion_module text_output vision_output w2) (\<lambda>vision_seq_in_text.
     bnd (CatClassifier_forward (cat_classifier self) vision_seq_in_text text_output)
       (\<lambda>cat_logits.
     Inr (CatOutput text_output vision_seq_in_text cat_logits, w2))))))))))))"
proof -
  have mode: "py_getitem [''sep'', ''cat''] 1 = Inr ''cat''"
    by (simp add: py_getitem_def)
  have br: "bnd (bnd a (\<lambda>x. bnd (g x) (\<lambda>y. Inr (Inl (h x y)))))
              (\<lambda>r. case r of Inl returned \<Rightarrow> Inr (returned, w2)
                    | Inr (p :: tensor \<times> tensor) \<Rightarrow> k p) =
            bnd a (\<lambda>x. bnd (g x) (\<lambda>y. Inr (h x y, w2)))"
    for a :: "error + 'x" and g :: "'x \<Rightarrow> error + 'y" and h :: "'x \<Rightarrow> 'y \<Rightarrow> model_output"
      and w2 :: "'a world" and k
    by (cases a) (auto simp: bnd_def split: sum.splits)
  show ?thesis
    unfolding UnimoModel_forward_def Let_def mode
    by (cases "dim input_ids = 2") (simp_all add: br del: One_nat_def)
qed

lemma model_example_run:
  "map_sum id fst
     (UnimoModel_forward model_example (Tensor [1, 2] [5, 6]) (Some (Tensor [1, 2] [1, 0]))
        (Some (Tensor [1, 2] [0, 0])) None None (Tensor [1, 2, 2] [1, 2, 3, 4]) None None
        False False False world_example) =
   Inr (CatOutput (Tensor [1, 2, 2] [11, 20, 30, 41]) (Tensor [1, 2, 2] [11, 22, 31, 42])
          (Tensor [1, 2, 4] [11, 22, 11, 20, 31, 42, 30, 41]))"
  by code_simp

lemma model_example_classifiers:
  "TextClassifier_forward (text_classifier model_example) (Tensor [1, 2, 2] [11, 20, 30, 41]) =
     Inl RuntimeError"
  "VisionClassifier_forward (vision_classifier model_example) (Tensor [1, 2, 2] [1, 2, 3, 4]) =
     Inl RuntimeError"
  by code_simp+

text \<open>
  C8: \<open>['sep', 'cat'][1]\<close> is \<open>'cat'\<close>, and \<open>UnimoModel.forward\<close> returns exactly when every step
  up to the encoder and then the two steps of the \<open>'cat'\<close> branch, \<open>fusion_module\<close> and
  \<open>cat_classifier\<close>, return; the value is then the tuple
  \<open>(text_output, vision_seq_in_text, cat_logits)\<close> of that branch, never the tuple of four
  values of the last \<open>return\<close>. The pass, raising or returning, is the same whatever
  \<open>text_classifier\<close> and \<open>vision_classifier\<close> are: they are not called.
\<close>

theorem UnimoModel_forward_returns_cat_branch:
  "py_getitem [''sep'', ''cat''] 1 = Inr ''cat'' \<and>
   (UnimoModel_forward self input_ids attention_mask0 token_type_ids position_ids head_mask0
        pixel_values aux_values rcnn_values output_attentions output_hidden_states return_dict w =
      Inr (out, w') \<longleftrightarrow>
    (\<exists>ve0 vision_embedding_output tt extended_attention_mask text_embedding_output w1
        encoder_outputs text_output vision_output vision_seq_in_text cat_logits.
       vision_embeddings self pixel_values aux_values rcnn_values = Inr ve0 \<and>
       vision_pre_layrnorm self ve0 = Inr vision_embedding_output \<and>
       dim input_ids = 2 \<and>
       token_type_ids = Some tt \<and>
       get_extended_attention_mask
         (case attention_mask0 of
            None \<Rightarrow> ones [shape input_ids ! 0, shape input_ids ! 1]
          | Some am \<Rightarrow> am) (shape input_ids) ''cuda'' = Inr extended_attention_mask \<and>
       BertEmbeddings_forward (text_embeddings self) input_ids tt position_ids w =
         Inr (text_embedding_output, w1) \<and>
       UnimoEncoder_forward (encoder self) vision_embedding_output text_embedding_output
         (Some extended_attention_mask) None output_attentions output_hidden_states False w1 =
         Inr (encoder_outputs, w') \<and>
       py_getitem encoder_outputs 0 = Inr (PyTensor text_output) \<and>
       py_getitem encoder_outputs 1 = Inr (PyTensor vision_output) \<and>
       fusion_module text_output vision_output w' = Inr vision_seq_in_text \<and>
       CatClassifier_forward (cat_classifier self) vision_seq_in_text text_output =
         Inr cat_logits \<and>
       out = CatOutput text_output vision_seq_in_text cat_logits)) \<and>
   UnimoModel_forward self input_ids attention_mask0 token_type_ids position_ids head_mask0
        pixel_values aux_values rcnn_values output_attentions output_hidden_states return_dict w \<noteq>
      Inr (SepOutput a b c d, w') \<and>
   UnimoModel_forward (self\<lparr>text_classifier := tc, vision_classifier := vc\<rparr>) input_ids
        attention_mask0 token_type_ids position_ids head_mask0
        pixel_values aux_values rcnn_values output_attentions output_hidden_states return_dict w =
      UnimoModel_forward self input_ids attention_mask0 token_type_ids position_ids head_mask0
        pixel_values aux_values rcnn_values output_attentions output_hidden_states return_dict w"
proof -
  have tens: "(case v of PyTensor t \<Rightarrow> Inr t | _ \<Rightarrow> Inl TypeError) = Inr t \<longleftrightarrow>
      v = PyTensor t" for v t
    by (cases v) simp_all
  have iff: "UnimoModel_forward self input_ids attention_mask0 token_type_ids position_ids head_mask0
        pixel_values aux_values rcnn_values output_attentions output_hidden_states return_dict w =
      Inr (out, w') \<longleftrightarrow>
    (\<exists>ve0 vision_embedding_output tt extended_attention_mask text_embedding_output w1
        encoder_outputs text_output vision_output vision_seq_in_text cat_logits.
       vision_embeddings self pixel_values aux_values rcnn_values = Inr ve0 \<and>
       vision_pre_layrnorm self ve0 = Inr vision_embedding_output \<and>
       dim input_ids = 2 \<and>
       token_type_ids = Some tt \<and>
       get_extended_attention_mask
         (case attention_mask0 of
            None \<Rightarrow> ones [shape input_ids ! 0, shape input_ids ! 1]
          | Some am \<Rightarrow> am) (shape input_ids) ''cuda'' = Inr extended_attention_mask \<and>
       BertEmbeddings_forward (text_embeddings self) input_ids tt position_ids w =
         Inr (text_embedding_output, w1) \<and>
       UnimoEncoder_forward (encoder self) vision_embedding_output text_embedding_output
         (Some extended_attention_mask) None output_attentions output_hidden_states False w1 =
         Inr (encoder_outputs, w') \<and>
       py_getitem encoder_outputs 0 = Inr (PyTensor text_output) \<and>
       py_getitem encoder_outputs 1 = Inr (PyTensor vision_output) \<and>
       fusion_module text_output vision_output w' = Inr vision_seq_in_text \<and>
       CatClassifier_forward (cat_classifier self) vision_seq_in_text text_output =
         Inr cat_logits \<and>
       out = CatOutput text_output vision_seq_in_text cat_logits)" for out
    unfolding UnimoModel_forward_cat
    by (cases token_type_ids; cases "dim input_ids = 2")
       (auto simp: bnd_eq_Inr tens simp del: One_nat_def)
  have sep: "UnimoModel_forward self input_ids attention_mask0 token_type_ids position_ids head_mask0
        pixel_values aux_values rcnn_values output_attentions output_hidden_states return_dict w \<noteq>
      Inr (SepOutput a b c d, w')"
    using iff [of "SepOutput a b c d"] by simp
  have ind: "UnimoModel_forward (self\<lparr>text_classifier := tc, vision_classifier := vc\<rparr>) input_ids
        attention_mask0 token_type_ids position_ids head_mask0
        pixel_values aux_values rcnn_values output_attentions output_hidden_states return_dict w =
      UnimoModel_forward self input_ids attention_mask0 token_type_ids position_ids head_mask0
        pixel_values aux_values rcnn_values output_attentions output_hidden_states return_dict w"
    unfolding UnimoModel_forward_cat by simp
  have mode: "py_getitem [''sep'', ''cat''] 1 = Inr ''cat''"
    by (simp add: py_getitem_def)
  show ?thesis
    apply (intro conjI)
    apply (rule mode)
    apply (rule iff)
    apply (rule sep)
    apply (rule ind)
    done
qed

theorem UnimoModel_forward_returns_cat_branch_witness:
  "(\<exists>w'. UnimoModel_forward model_example (Tensor [1, 2] [5, 6]) (Some (Tensor [1, 2] [1, 0]))
          (Some (Tensor [1, 2] [0, 0])) None None (Tensor [1, 2, 2] [1, 2, 3, 4]) None None
          False False False world_example =
        Inr (CatOutput (Tensor [1, 2, 2] [11, 20, 30, 41]) (Tensor [1, 2, 2] [11, 22, 31, 42])
               (Tensor [1, 2, 4] [11, 22, 11, 20, 31, 42, 30, 41]), w') \<and>
        (\<exists>vision_output. fusion_module (Tensor [1, 2, 2] [11, 20, 30, 41]) vision_output w' =
           Inr (Tensor [1, 2, 2] [11, 22, 31, 42])) \<and>
        CatClassifier_forward (cat_classifier model_example) (Tensor [1, 2, 2] [11, 22, 31, 42])
          (Tensor [1, 2, 2] [11, 20, 30, 41]) =
          Inr (Tensor [1, 2, 4] [11, 22, 11, 20, 31, 42, 30, 41])) \<and>
   TextClassifier_forward (text_classifier model_example) (Tensor [1, 2, 2] [11, 20, 30, 41]) =
     Inl RuntimeError \<and>
   VisionClassifier_forward (vision_classifier model_example) (Tensor [1, 2, 2] [1, 2, 3, 4]) =
     Inl RuntimeError \<and>
   UnimoModel_forward
     (model_example\<lparr>text_classifier := cat_classifier model_example,
                     vision_classifier := cat_classifier model_example\<rparr>)
     (Tensor [1, 2] [5, 6]) (Some (Tensor [1, 2] [1, 0]))
     (Some (Tensor [1, 2] [0, 0])) None None (Tensor [1, 2, 2] [1, 2, 3, 4]) None None
     False False False world_example =
   UnimoModel_forward model_example (Tensor [1, 2] [5, 6]) (Some (Tensor [1, 2] [1, 0]))
     (Some (Tensor [1, 2] [0, 0])) None None (Tensor [1, 2, 2] [1, 2, 3, 4]) None None
     False False False world_example"
proof -
  let ?T = "Tensor [1, 2, 2] [11, 20, 30, 41]"
  let ?V = "Tensor [1, 2, 2] [11, 22, 31, 42]"
  let ?C = "Tensor [1, 2, 4] [11, 22, 11, 20, 31, 42, 30, 41]"
  let ?run = "UnimoModel_forward model_example (Tensor [1, 2] [5, 6]) (Some (Tensor [1, 2] [1, 0]))
          (Some (Tensor [1, 2] [0, 0])) None None (Tensor [1, 2, 2] [1, 2, 3, 4]) None None
          False False False world_example"
  from model_example_run obtain w' where run: "?run = Inr (CatOutput ?T ?V ?C, w')"
    by (cases ?run) auto
  note inst = UnimoModel_forward_returns_cat_branch [of model_example "Tensor [1, 2] [5, 6]"
      "Some (Tensor [1, 2] [1, 0])" "Some (Tensor [1, 2] [0, 0])" None None
      "Tensor [1, 2, 2] [1, 2, 3, 4]" None None False False False world_example
      "CatOutput ?T ?V ?C" w' _ _ _ _ "cat_classifier model_example" "cat_classifier model_example"]
  from inst [THEN conjunct2, THEN conjunct1, THEN iffD1, OF run]
  obtain vision_output where
    "fusion_module ?T vision_output w' = Inr ?V"
    "CatClassifier_forward (cat_classifier model_example) ?V ?T = Inr ?C"
    by auto
  then have a: "\<exists>w'. ?run = Inr (CatOutput ?T ?V ?C, w') \<and>
      (\<exists>vision_output. fusion_module ?T vision_output w' = Inr ?V) \<and>
      CatClassifier_forward (cat_classifier model_example) ?V ?T = Inr ?C"
    using run by blast
  show ?thesis
    using a model_example_classifiers
      inst [THEN conjunct2, THEN conjunct2, THEN conjunct2]
    by blast
qed

end
